theory Spec2Isabelle
  imports Complex_Main "HOL-Library.AList"
begin

section \<open>Syntax trees\<close>

text \<open>
  The program works on the trees of the Lark parser. A \<open>Token\<close> is a string with a
  \<open>type\<close> tag and a source position (line, column, end line, end column); a \<open>Tree\<close>
  has a \<open>data\<close> label and a list of children. The grammar file is not part of the
  sources, so nothing is assumed about the shape of a tree: where the Python would raise
  on an unexpected shape, the model returns the exception.
\<close>

type_synonym pos = "nat \<times> nat \<times> nat \<times> nat"

datatype node = Token string string pos | Tree string "node list"

fun is_Token :: "node \<Rightarrow> bool" where
  "is_Token (Token t v p) = True"
| "is_Token (Tree d cs) = False"

fun token_type :: "node \<Rightarrow> string" where
  "token_type (Token t v p) = t"
| "token_type (Tree d cs) = []"

text \<open>Python's truth value of a node: a tree is an object (true), a token is a string
  (true unless empty).\<close>

fun node_truthy :: "node \<Rightarrow> bool" where
  "node_truthy (Token t v p) = (v \<noteq> [])"
| "node_truthy (Tree d cs) = True"

section \<open>Types, values, variables and functions\<close>

text \<open>
  A type is a string (\<open>"int"\<close>, or a type token, which is a string) or, for a function,
  the tuple of its argument types followed by its return type.
\<close>

datatype ty = TName string | TFun "string list"

text \<open>
  \<open>Function (scope, arguments, returntype, codeblock, defaultreturn)\<close>; the arguments are
  kept as (type, name) pairs as in \<open>Function.__init__\<close>. The scope is the index of the
  defining scope in the store of scopes. \<open>NativeFunction\<close> wraps a host callable, which
  the model names.
\<close>

datatype func =
    Function nat "(string \<times> string) list" string node "node option"
  | NativeFunction nat "(string \<times> string) list" string string

fun func_arguments :: "func \<Rightarrow> (string \<times> string) list" where
  "func_arguments (Function sc args rt cb dr) = args"
| "func_arguments (NativeFunction sc args rt h) = args"

fun func_returntype :: "func \<Rightarrow> string" where
  "func_returntype (Function sc args rt cb dr) = rt"
| "func_returntype (NativeFunction sc args rt h) = rt"

text \<open>
  Host values. A float carries the exact real it stands for: rounding and overflow of the
  host's floating point are not modelled, only which operations produce a float.
\<close>

datatype val = VInt int | VFloat real | VBool bool | VStr string | VNone | VFun func

datatype variable = Variable ty val

fun var_type :: "variable \<Rightarrow> ty" where
  "var_type (Variable t v) = t"

fun var_value :: "variable \<Rightarrow> val" where
  "var_value (Variable t v) = v"

text \<open>\<open>Function.__init__\<close>: the variable a function is stored as has the tuple type and
  the function itself as value. The argument list given to the constructor holds
  (name, type) pairs.\<close>

definition Function_init :: "nat \<Rightarrow> (string \<times> string) list \<Rightarrow> string \<Rightarrow> node \<Rightarrow> node option \<Rightarrow> func" where
  "Function_init scope arguments returntype codeblock defaultreturn =
     Function scope (map (\<lambda>(name, type). (type, name)) arguments) returntype codeblock defaultreturn"

definition function_variable :: "func \<Rightarrow> variable" where
  "function_variable f =
     Variable (TFun (map fst (func_arguments f) @ [func_returntype f])) (VFun f)"

section \<open>Diagnostics, output and state\<close>

text \<open>
  A diagnostic is \<open>TypeCheckError(datum, message)\<close>. The message is kept as the format
  string's name with the values formatted into it; \<open>display_type\<close> only colours them.
\<close>

datatype message =
    NotYetDefined string
  | UnknownValueType string
  | ConditionNotBool ty
  | BranchTypesDiffer ty ty
  | ArgumentType ty nat ty ty
  | ArgumentCount ty nat nat
  | ImportedCommandUnchecked
  | DontKnowUnary string ty
  | DontKnowBinary string ty ty
  | CantCompareDifferent ty ty
  | DontKnowCompare ty
  | UnknownExprType string
  | NotInstruction string
  | DefaultReturnType string ty ty
  | AlreadyDefined string
  | UnreachableCode
  | RedundantExplicitReturn
  | CantLoopOver ty
  | LoopVarType ty ty ty
  | ReturnOutsideFunction
  | ReturnType ty ty
  | DeclareType string ty ty
  | NonStartingBranch

datatype diag = TypeCheckError node message

text \<open>What the program prints, one entry per \<open>print\<close> call.\<close>

datatype out =
    PrintValue val
  | PrintCannotLoop string
  | PrintSeeBelow node
  | PrintDiagnostics "diag list" "diag list"
  | PrintRanWith nat nat

text \<open>Python exceptions, \<open>OutOfFuel\<close> for a call depth beyond the fuel given to the
  evaluator, and \<open>Unmodelled\<close> where the host does something the model leaves out.\<close>

datatype exn =
    NameError string
  | MissingArguments "string list"
  | TypeError
  | SyntaxError
  | AttributeError
  | ValueError
  | IndexError
  | ZeroDivisionError
  | OutOfFuel
  | Unmodelled

record scope =
  parent :: "nat option"
  parent_function :: "func option"
  imports_list :: "string list"
  variables :: "(string \<times> variable) list"

text \<open>
  Scopes are objects that refer to each other (a scope to its parent, a function to its
  defining scope), so they live in a store, and a scope is named by its index there.
  The error and warning lists are one pair of lists shared by every scope.
\<close>

record state =
  scopes :: "scope list"
  errors :: "diag list"
  warnings :: "diag list"
  stdout :: "out list"

definition add_error :: "node \<Rightarrow> message \<Rightarrow> state \<Rightarrow> state" where
  "add_error datum msg s = s\<lparr>errors := errors s @ [TypeCheckError datum msg]\<rparr>"

definition add_warning :: "node \<Rightarrow> message \<Rightarrow> state \<Rightarrow> state" where
  "add_warning datum msg s = s\<lparr>warnings := warnings s @ [TypeCheckError datum msg]\<rparr>"

definition print_out :: "out \<Rightarrow> state \<Rightarrow> state" where
  "print_out x s = s\<lparr>stdout := stdout s @ [x]\<rparr>"

section \<open>Scope\<close>

definition new_scope :: "nat \<Rightarrow> func option \<Rightarrow> state \<Rightarrow> nat \<times> state" where
  "new_scope self pf s =
     (length (scopes s),
      s\<lparr>scopes := scopes s @
          [\<lparr>parent = Some self,
            parent_function = (case pf of Some f \<Rightarrow> Some f
                               | None \<Rightarrow> parent_function (scopes s ! self)),
            imports_list = [],
            variables = []\<rparr>]\<rparr>)"

definition set_variable :: "nat \<Rightarrow> string \<Rightarrow> variable \<Rightarrow> state \<Rightarrow> state" where
  "set_variable self name v s =
     s\<lparr>scopes := (scopes s)[self := (scopes s ! self)
          \<lparr>variables := AList.update name v (variables (scopes s ! self))\<rparr>]\<rparr>"

text \<open>
  \<open>get_variable(name, err=False)\<close>. A scope made by \<open>new_scope\<close> has a larger index than
  its parent, which is what makes the walk up the parents end.
\<close>

function get_variable :: "state \<Rightarrow> nat \<Rightarrow> string \<Rightarrow> variable option" where
  "get_variable s self name =
     (case map_of (variables (scopes s ! self)) name of
        Some v \<Rightarrow> Some v
      | None \<Rightarrow>
          (case parent (scopes s ! self) of
             Some p \<Rightarrow> if p < self then get_variable s p name else None
           | None \<Rightarrow> None))"
  by pat_completeness auto
termination
  by (relation "measure (\<lambda>(s, self, name). self)") auto

definition get_variable_err :: "state \<Rightarrow> nat \<Rightarrow> string \<Rightarrow> exn + variable" where
  "get_variable_err s self name =
     (case get_variable s self name of
        None \<Rightarrow> Inl (NameError name)
      | Some v \<Rightarrow> Inr v)"

function get_parent_function :: "state \<Rightarrow> nat \<Rightarrow> func option" where
  "get_parent_function s self =
     (case parent_function (scopes s ! self) of
        Some f \<Rightarrow> Some f
      | None \<Rightarrow>
          (case parent (scopes s ! self) of
             Some p \<Rightarrow> if p < self then get_parent_function s p else None
           | None \<Rightarrow> None))"
  by pat_completeness auto
termination
  by (relation "measure (\<lambda>(s, self). self)") auto

section \<open>Operator tables\<close>

definition binary_operation_types :: "(string \<times> ((ty \<times> ty) \<times> ty) list) list" where
  "binary_operation_types =
    [(''OR'', [((TName ''bool'', TName ''bool''), TName ''bool''),
               ((TName ''int'', TName ''int''), TName ''int'')]),
     (''AND'', [((TName ''bool'', TName ''bool''), TName ''bool''),
                ((TName ''int'', TName ''int''), TName ''int'')]),
     (''ADD'', [((TName ''int'', TName ''int''), TName ''int''),
                ((TName ''float'', TName ''float''), TName ''float''),
                ((TName ''str'', TName ''str''), TName ''str'')]),
     (''SUBTRACT'', [((TName ''int'', TName ''int''), TName ''int''),
                     ((TName ''float'', TName ''float''), TName ''float'')]),
     (''MULTIPLY'', [((TName ''int'', TName ''int''), TName ''int''),
                     ((TName ''float'', TName ''float''), TName ''float'')]),
     (''DIVIDE'', [((TName ''int'', TName ''int''), TName ''int''),
                   ((TName ''float'', TName ''float''), TName ''float'')]),
     (''ROUNDDIV'', [((TName ''int'', TName ''int''), TName ''int''),
                     ((TName ''float'', TName ''float''), TName ''float'')]),
     (''MODULO'', [((TName ''int'', TName ''int''), TName ''int''),
                   ((TName ''float'', TName ''float''), TName ''float'')]),
     (''EXPONENT'', [((TName ''int'', TName ''int''), TName ''float''),
                     ((TName ''float'', TName ''float''), TName ''float'')])]"

definition unary_operation_types :: "(string \<times> (ty \<times> ty) list) list" where
  "unary_operation_types =
    [(''NEGATE'', [(TName ''int'', TName ''int''), (TName ''float'', TName ''float'')]),
     (''NOT'', [(TName ''bool'', TName ''bool''), (TName ''int'', TName ''int'')])]"

definition comparable_types :: "ty list" where
  "comparable_types = [TName ''int'', TName ''float'']"

definition iterable_types :: "(ty \<times> ty) list" where
  "iterable_types = [(TName ''int'', TName ''int'')]"

section \<open>The type checker: expressions\<close>

definition get_value_type :: "nat \<Rightarrow> string \<Rightarrow> string \<Rightarrow> pos \<Rightarrow> state \<Rightarrow> ty option \<times> state" where
  "get_value_type self t v p s =
     (if t = ''NUMBER'' then (Some (TName ''int''), s)
      else if t = ''STRING'' then (Some (TName ''str''), s)
      else if t = ''BOOLEAN'' then (Some (TName ''bool''), s)
      else if t = ''NAME'' then
        (case get_variable s self v of
           None \<Rightarrow> (None, add_error (Token t v p) (NotYetDefined v) s)
         | Some variable \<Rightarrow> (Some (var_type variable), s))
      else (None, add_error (Token t v p) (UnknownValueType t) s))"

text \<open>
  \<open>*arg_types, return_type = func_type\<close>: a tuple gives its elements; a string gives its
  characters, each a string of length one. Nothing to unpack raises ValueError.
\<close>

fun unpack_func_type :: "ty \<Rightarrow> (string list \<times> string) option" where
  "unpack_func_type (TFun ts) = (if ts = [] then None else Some (butlast ts, last ts))"
| "unpack_func_type (TName n) =
     (if n = [] then None else Some (map (\<lambda>c. [c]) (butlast n), [last n]))"

text \<open>
  \<open>type_check_expr\<close> returns the type, or None for "unknown". The loop over
  \<open>zip(arguments, arg_types)\<close> of a call is \<open>type_check_arguments\<close>; its \<open>n\<close> is the
  argument's number in the message.

  In a comparison chain the right operand of the left link is checked a second time "in
  a new scope whose errors are discarded": the new scope gets empty lists of its own, so
  the shared lists are put back after the check.
\<close>

function (sequential)
  type_check_expr :: "nat \<Rightarrow> node \<Rightarrow> state \<Rightarrow> exn + (ty option \<times> state)" and
  type_check_arguments ::
    "nat \<Rightarrow> node \<Rightarrow> ty \<Rightarrow> nat \<Rightarrow> node list \<Rightarrow> string list \<Rightarrow> state \<Rightarrow> exn + state"
where
  "type_check_expr self (Token t v p) s = Inr (get_value_type self t v p s)"
| "type_check_expr self (Tree d cs) s =
    (if d = ''ifelse_expr'' then
       (case cs of
          [condition, if_true, if_false] \<Rightarrow>
            (case type_check_expr self condition s of Inl e \<Rightarrow> Inl e
             | Inr (cond_type, s1) \<Rightarrow>
            (case type_check_expr self if_true s1 of Inl e \<Rightarrow> Inl e
             | Inr (if_true_type, s2) \<Rightarrow>
            (case type_check_expr self if_false s2 of Inl e \<Rightarrow> Inl e
             | Inr (if_false_type, s3) \<Rightarrow>
               (let s4 = (case cond_type of None \<Rightarrow> s3
                          | Some ct \<Rightarrow>
                              if ct \<noteq> TName ''bool''
                              then add_error condition (ConditionNotBool ct) s3 else s3)
                in case (if_true_type, if_false_type) of
                     (Some tt, Some ft) \<Rightarrow>
                        if tt \<noteq> ft
                        then Inr (None, add_error (Tree d cs) (BranchTypesDiffer tt ft) s4)
                        else Inr (Some tt, s4)
                   | _ \<Rightarrow> Inr (None, s4)))))
        | _ \<Rightarrow> Inl ValueError)
     else if d = ''function_callback'' then
       (case cs of
          [] \<Rightarrow> Inl IndexError
        | Token t0 v0 p0 # _ \<Rightarrow> Inl AttributeError
        | Tree d0 [] # _ \<Rightarrow> Inl ValueError
        | Tree d0 (function # arguments) # _ \<Rightarrow>
            (case type_check_expr self function s of Inl e \<Rightarrow> Inl e
             | Inr (None, s1) \<Rightarrow> Inr (None, s1)
             | Inr (Some func_type, s1) \<Rightarrow>
                (case unpack_func_type func_type of
                   None \<Rightarrow> Inl ValueError
                 | Some (arg_types, return_type) \<Rightarrow>
                    (case type_check_arguments self (Tree d cs) func_type 1 arguments arg_types s1 of
                       Inl e \<Rightarrow> Inl e
                     | Inr s2 \<Rightarrow>
                         Inr (Some (TName return_type),
                              if length arguments \<noteq> length arg_types
                              then add_error (Tree d cs)
                                     (ArgumentCount func_type (length arg_types) (length arguments)) s2
                              else s2)))))
     else if d = ''imported_command'' then
       Inr (None, add_warning (Tree d cs) ImportedCommandUnchecked s)
     else if d = ''value'' then
       (case cs of
          [] \<Rightarrow> Inl IndexError
        | Tree d0 cs0 # _ \<Rightarrow> type_check_expr self (Tree d0 cs0) s
        | Token t0 v0 p0 # _ \<Rightarrow> Inr (get_value_type self t0 v0 p0 s))
     else if length cs = 2 \<and> is_Token (cs ! 0)
             \<and> map_of unary_operation_types (token_type (cs ! 0)) \<noteq> None then
       (case map_of unary_operation_types (token_type (cs ! 0)) of
          None \<Rightarrow> Inl Unmodelled
        | Some types \<Rightarrow>
            (case type_check_expr self (cs ! 1) s of Inl e \<Rightarrow> Inl e
             | Inr (None, s1) \<Rightarrow> Inr (None, s1)
             | Inr (Some value_type, s1) \<Rightarrow>
                (case map_of types value_type of
                   None \<Rightarrow>
                     Inr (None, add_error (Tree d cs)
                                  (DontKnowUnary (token_type (cs ! 0)) value_type) s1)
                 | Some return_type \<Rightarrow> Inr (Some return_type, s1))))
     else if length cs = 3 \<and> is_Token (cs ! 1)
             \<and> map_of binary_operation_types (token_type (cs ! 1)) \<noteq> None then
       (case map_of binary_operation_types (token_type (cs ! 1)) of
          None \<Rightarrow> Inl Unmodelled
        | Some types \<Rightarrow>
            (case type_check_expr self (cs ! 0) s of Inl e \<Rightarrow> Inl e
             | Inr (left_type, s1) \<Rightarrow>
            (case type_check_expr self (cs ! 2) s1 of Inl e \<Rightarrow> Inl e
             | Inr (right_type, s2) \<Rightarrow>
               (case (left_type, right_type) of
                  (Some lt, Some rt) \<Rightarrow>
                    (case map_of types (lt, rt) of
                       None \<Rightarrow>
                         Inr (None, add_error (Tree d cs)
                                      (DontKnowBinary (token_type (cs ! 1)) lt rt) s2)
                     | Some return_type \<Rightarrow> Inr (Some return_type, s2))
                | _ \<Rightarrow> Inr (None, s2)))))
     else if length cs = 3 \<and> is_Token (cs ! 1) \<and> d = ''compare_expression'' then
       (case (case cs ! 0 of
                Token t0 v0 p0 \<Rightarrow> Inl AttributeError
              | Tree ld lcs \<Rightarrow>
                  if ld = ''compare_expression'' then
                    (case type_check_expr self (Tree ld lcs) s of Inl e \<Rightarrow> Inl e
                     | Inr (chain_type, s1) \<Rightarrow>
                        (case new_scope self None s1 of
                           (scope, s2) \<Rightarrow>
                             if length lcs < 3 then Inl IndexError
                             else
                               (case type_check_expr scope (lcs ! 2)
                                       (s2\<lparr>errors := [], warnings := []\<rparr>) of
                                  Inl e \<Rightarrow> Inl e
                                | Inr (left_type, s3) \<Rightarrow>
                                    Inr (left_type,
                                         s3\<lparr>errors := errors s2, warnings := warnings s2\<rparr>))))
                  else type_check_expr self (Tree ld lcs) s) of
          Inl e \<Rightarrow> Inl e
        | Inr (left_type, s4) \<Rightarrow>
            (case type_check_expr self (cs ! 2) s4 of Inl e \<Rightarrow> Inl e
             | Inr (right_type, s5) \<Rightarrow>
                Inr (Some (TName ''bool''),
                     (case left_type of
                        None \<Rightarrow> s5
                      | Some lt \<Rightarrow>
                          (let s6 = (case right_type of
                                       None \<Rightarrow> s5
                                     | Some rt \<Rightarrow>
                                         if lt \<noteq> rt
                                         then add_error (cs ! 1) (CantCompareDifferent lt rt) s5
                                         else s5)
                           in if token_type (cs ! 1) \<noteq> ''EQUALS''
                                 \<and> token_type (cs ! 1) \<noteq> ''NEQUALS''
                                 \<and> token_type (cs ! 1) \<noteq> ''NEQUALS_QUIRKY''
                                 \<and> lt \<notin> set comparable_types
                              then add_error (cs ! 1) (DontKnowCompare lt) s6
                              else s6)))))
     else Inr (None, add_error (Tree d cs) (UnknownExprType d) s))"
| "type_check_arguments self expr func_type n [] arg_types s = Inr s"
| "type_check_arguments self expr func_type n (argument # arguments) [] s = Inr s"
| "type_check_arguments self expr func_type n (argument # arguments) (arg_type # arg_types) s =
    (case type_check_expr self argument s of Inl e \<Rightarrow> Inl e
     | Inr (check_type, s1) \<Rightarrow>
        type_check_arguments self expr func_type (Suc n) arguments arg_types
          (case check_type of
             None \<Rightarrow> s1
           | Some ct \<Rightarrow>
               if ct \<noteq> TName arg_type
               then add_error expr (ArgumentType func_type n ct (TName arg_type)) s1
               else s1))"
  by pat_completeness auto

lemma size_nth_children: "i < length cs \<Longrightarrow> size (cs ! i) \<le> size_list size cs"
  by (induction cs arbitrary: i) (auto simp: less_Suc_eq_0_disj le_SucI trans_le_add2)

lemma size_nth_grandchildren:
  "i < length cs \<Longrightarrow> cs ! i = Tree d lcs \<Longrightarrow> j < length lcs
   \<Longrightarrow> size (lcs ! j) \<le> size_list size cs"
  using size_nth_children [of i cs] size_nth_children [of j lcs] by simp

lemma size_nth_tree:
  "i < length cs \<Longrightarrow> cs ! i = Tree d lcs \<Longrightarrow> Suc (size_list size lcs) \<le> size_list size cs"
  using size_nth_children [of i cs] by simp

termination type_check_expr
  apply (relation "measure (\<lambda>x. case x of
            Inl (self, e, s) \<Rightarrow> size e
          | Inr (self, expr, ft, n, arguments, arg_types, s) \<Rightarrow> size_list size arguments)")
  apply (simp_all add: less_Suc_eq_le size_nth_children)
  apply (simp_all add: size_nth_tree [where i = 0] size_nth_grandchildren [where i = 0 and j = 2])
  done

section \<open>The type checker: commands\<close>

text \<open>\<open>(arg.children[0].value, arg.children[1].value)\<close> for one argument node of a
  function definition: the pair (name, type).\<close>

fun parse_argument :: "node \<Rightarrow> exn + (string \<times> string)" where
  "parse_argument (Token t v p) = Inl AttributeError"
| "parse_argument (Tree d []) = Inl IndexError"
| "parse_argument (Tree d (Tree d0 cs0 # rest)) = Inl AttributeError"
| "parse_argument (Tree d [Token t0 v0 p0]) = Inl IndexError"
| "parse_argument (Tree d (Token t0 v0 p0 # Tree d1 cs1 # rest)) = Inl AttributeError"
| "parse_argument (Tree d (Token t0 v0 p0 # Token t1 v1 p1 # rest)) = Inr (v0, v1)"

fun parse_arguments :: "node list \<Rightarrow> exn + (string \<times> string) list" where
  "parse_arguments [] = Inr []"
| "parse_arguments (arg # args) =
     (case parse_argument arg of Inl e \<Rightarrow> Inl e
      | Inr a \<Rightarrow> (case parse_arguments args of Inl e \<Rightarrow> Inl e | Inr as \<Rightarrow> Inr (a # as)))"

text \<open>\<open>for arg_type, arg_name in function.arguments:
  scope.variables[arg_name] = Variable(arg_type, "anything")\<close>\<close>

fun bind_placeholders :: "nat \<Rightarrow> (string \<times> string) list \<Rightarrow> state \<Rightarrow> state" where
  "bind_placeholders scope [] s = s"
| "bind_placeholders scope ((arg_type, arg_name) # rest) s =
     bind_placeholders scope rest
       (set_variable scope arg_name (Variable (TName arg_type) (VStr ''anything'')) s)"

text \<open>
  The \<open>function_def\<close> branch of \<open>type_check_command\<close> up to the loop over the body: the
  children of the command are unpacked, the default return is checked, a duplicate name
  is reported, the function is stored under its name, and a scope for the body is opened
  with the arguments in it. It returns the function, the new scope and the state.
\<close>

definition function_def_head :: "nat \<Rightarrow> node list \<Rightarrow> state \<Rightarrow> exn + (func \<times> nat \<times> state)" where
  "function_def_head self ccs s =
    (if length ccs \<noteq> 3 \<and> length ccs \<noteq> 4 then Inl ValueError
     else
       (case ccs ! 0 of
          Token t0 v0 p0 \<Rightarrow> Inl AttributeError
        | Tree dd [] \<Rightarrow> Inl ValueError
        | Tree dd (name # argument_nodes) \<Rightarrow>
           (case parse_arguments argument_nodes of Inl e \<Rightarrow> Inl e
            | Inr arguments \<Rightarrow>
             (case (if length ccs = 4 \<and> node_truthy (ccs ! 3)
                    then (case type_check_expr self (ccs ! 3) s of Inl e \<Rightarrow> Inl e
                          | Inr (None, s1) \<Rightarrow> Inr s1
                          | Inr (Some default_return_type, s1) \<Rightarrow>
                              (case ccs ! 1 of
                                 Token t1 v1 p1 \<Rightarrow>
                                   if default_return_type \<noteq> TName v1
                                   then Inr (add_error (ccs ! 3)
                                          (DefaultReturnType
                                             (case name of Token tn vn pn \<Rightarrow> vn | Tree nd ncs \<Rightarrow> [])
                                             (TName v1) default_return_type) s1)
                                   else Inr s1
                               | Tree d1 cs1 \<Rightarrow> Inl Unmodelled))
                    else Inr s) of
                Inl e \<Rightarrow> Inl e
              | Inr s1 \<Rightarrow>
                 (case name of
                    Tree nd ncs \<Rightarrow> Inl AttributeError
                  | Token tn vn pn \<Rightarrow>
                     (let s2 = (if map_of (variables (scopes s1 ! self)) vn \<noteq> None
                                then add_error name (AlreadyDefined vn) s1 else s1)
                      in case ccs ! 1 of
                           Tree d1 cs1 \<Rightarrow> Inl AttributeError
                         | Token t1 v1 p1 \<Rightarrow>
                            (let function = Function_init self arguments v1 (ccs ! 2)
                                              (if length ccs = 4 then Some (ccs ! 3) else None);
                                 s3 = set_variable self vn (function_variable function) s2
                             in case new_scope self (Some function) s3 of
                                  (scope, s4) \<Rightarrow>
                                    Inr (function, scope,
                                         bind_placeholders scope (func_arguments function) s4))))))))"

text \<open>
  \<open>type_check_command\<close> returns False (here None) or the exit point, a command. The two
  loops over the commands of a block are \<open>check_function_body\<close>, which carries
  \<open>exit_point\<close> and \<open>warned\<close>, and \<open>check_loop_body\<close>, which carries \<open>exit_point\<close>.
  An \<open>imp\<close> command loads a module of the host: it is left out of the model.
\<close>

function (sequential)
  type_check_command :: "nat \<Rightarrow> node \<Rightarrow> state \<Rightarrow> exn + (node option \<times> state)" and
  check_function_body ::
    "nat \<Rightarrow> node list \<Rightarrow> node option \<Rightarrow> bool \<Rightarrow> state \<Rightarrow> exn + (node option \<times> state)" and
  check_loop_body :: "nat \<Rightarrow> node list \<Rightarrow> node option \<Rightarrow> state \<Rightarrow> exn + (node option \<times> state)"
where
  "type_check_command self (Token t v p) s = Inl AttributeError"
| "type_check_command self (Tree d []) s =
    (if d \<noteq> ''instruction''
     then Inr (None, add_error (Tree d []) (NotInstruction d) s)
     else Inl IndexError)"
| "type_check_command self (Tree d (Token t0 v0 p0 # rest)) s =
    (if d \<noteq> ''instruction''
     then Inr (None, add_error (Tree d (Token t0 v0 p0 # rest)) (NotInstruction d) s)
     else Inl AttributeError)"
| "type_check_command self (Tree d (Tree cd ccs # rest)) s =
    (if d \<noteq> ''instruction''
     then Inr (None, add_error (Tree d (Tree cd ccs # rest)) (NotInstruction d) s)
     else if cd = ''imp'' then Inl Unmodelled
     else if cd = ''function_def'' then
       (case function_def_head self ccs s of Inl e \<Rightarrow> Inl e
        | Inr (function, scope, s1) \<Rightarrow>
           (case ccs ! 2 of
              Token t2 v2 p2 \<Rightarrow> Inl AttributeError
            | Tree bd body \<Rightarrow>
               (case check_function_body scope body None False s1 of Inl e \<Rightarrow> Inl e
                | Inr (exit_point, s2) \<Rightarrow>
                   (case exit_point of
                      None \<Rightarrow> Inr (None, s2)
                    | Some ep \<Rightarrow>
                        if length ccs = 4 \<and> node_truthy (ccs ! 3)
                        then Inr (None, add_warning ep RedundantExplicitReturn s2)
                        else Inr (None, s2)))))
     else if cd = ''loop'' then
       (case ccs of
          [iterable, var, code] \<Rightarrow>
            (case var of
               Token tv vv pv \<Rightarrow> Inl AttributeError
             | Tree vd [name, type] \<Rightarrow>
                (case type_check_expr self iterable s of Inl e \<Rightarrow> Inl e
                 | Inr (iterable_type, s1) \<Rightarrow>
                  (case type of
                     Tree td tcs \<Rightarrow> Inl Unmodelled
                   | Token tt type_name tp \<Rightarrow>
                    (let s2 = (case iterable_type of
                                 None \<Rightarrow> s1
                               | Some it \<Rightarrow>
                                  (case map_of iterable_types it of
                                     None \<Rightarrow> add_error iterable (CantLoopOver it) s1
                                   | Some iterated_type \<Rightarrow>
                                       if TName type_name \<noteq> iterated_type
                                       then add_error type
                                              (LoopVarType it iterated_type (TName type_name)) s1
                                       else s1))
                     in case new_scope self None s2 of
                          (scope, s3) \<Rightarrow>
                           (case name of
                              Tree nd ncs \<Rightarrow> Inl AttributeError
                            | Token tn vn pn \<Rightarrow>
                               (case code of
                                  Token tc vc pc \<Rightarrow> Inl AttributeError
                                | Tree bd body \<Rightarrow>
                                    check_loop_body scope body None
                                      (set_variable scope vn
                                         (Variable (TName type_name) (VStr ''whatever'')) s3))))))
             | Tree vd other \<Rightarrow> Inl ValueError)
        | _ \<Rightarrow> Inl ValueError)
     else if cd = ''print'' then
       (case ccs of
          [] \<Rightarrow> Inl IndexError
        | e # _ \<Rightarrow>
           (case type_check_expr self e s of Inl e \<Rightarrow> Inl e
            | Inr (print_type, s1) \<Rightarrow> Inr (None, s1)))
     else if cd = ''return'' then
       (case ccs of
          [] \<Rightarrow> Inl IndexError
        | e # _ \<Rightarrow>
           (case type_check_expr self e s of Inl e \<Rightarrow> Inl e
            | Inr (return_type, s1) \<Rightarrow>
               Inr (Some (Tree cd ccs),
                    (case get_parent_function s1 self of
                       None \<Rightarrow> add_error (Tree cd ccs) ReturnOutsideFunction s1
                     | Some pf \<Rightarrow>
                        (case return_type of
                           None \<Rightarrow> s1
                         | Some rt \<Rightarrow>
                             if TName (func_returntype pf) \<noteq> rt
                             then add_error e (ReturnType rt (TName (func_returntype pf))) s1
                             else s1)))))
     else if cd = ''declare'' then
       (case ccs of
          [name_type, value] \<Rightarrow>
            (case name_type of
               Token t1 v1 p1 \<Rightarrow> Inl AttributeError
             | Tree nd [name, type] \<Rightarrow>
                (case name of
                   Tree d1 cs1 \<Rightarrow> Inl AttributeError
                 | Token tn vn pn \<Rightarrow>
                    (case type_check_expr self value
                            (if map_of (variables (scopes s ! self)) vn \<noteq> None
                             then add_error name (AlreadyDefined vn) s else s) of
                       Inl e \<Rightarrow> Inl e
                     | Inr (value_type, s2) \<Rightarrow>
                        (case type of
                           Tree td tcs \<Rightarrow> Inl Unmodelled
                         | Token tt type_name tp \<Rightarrow>
                            Inr (None,
                                 set_variable self vn
                                   (Variable (TName type_name) (VStr ''whatever''))
                                   (case value_type of
                                      None \<Rightarrow> s2
                                    | Some vt \<Rightarrow>
                                        if vt \<noteq> TName type_name
                                        then add_error value
                                               (DeclareType vn (TName type_name) vt) s2
                                        else s2)))))
             | Tree nd other \<Rightarrow> Inl ValueError)
        | _ \<Rightarrow> Inl ValueError)
     else if cd = ''if'' then
       (case ccs of
          [condition, body] \<Rightarrow>
            (case type_check_expr self condition s of Inl e \<Rightarrow> Inl e
             | Inr (cond_type, s1) \<Rightarrow>
                (case type_check_command self body
                        (case cond_type of
                           None \<Rightarrow> s1
                         | Some ct \<Rightarrow>
                             if ct \<noteq> TName ''bool''
                             then add_error condition (ConditionNotBool ct) s1 else s1) of
                   Inl e \<Rightarrow> Inl e
                 | Inr (exit, s2) \<Rightarrow> Inr (None, s2)))
        | _ \<Rightarrow> Inl ValueError)
     else if cd = ''ifelse'' then
       (case ccs of
          [condition, if_true, if_false] \<Rightarrow>
            (case type_check_expr self condition s of Inl e \<Rightarrow> Inl e
             | Inr (cond_type, s1) \<Rightarrow>
                (case type_check_command self if_true
                        (case cond_type of
                           None \<Rightarrow> s1
                         | Some ct \<Rightarrow>
                             if ct \<noteq> TName ''bool''
                             then add_error condition (ConditionNotBool ct) s1 else s1) of
                   Inl e \<Rightarrow> Inl e
                 | Inr (exit_if_true, s2) \<Rightarrow>
                    (case type_check_command self if_true s2 of Inl e \<Rightarrow> Inl e
                     | Inr (exit_if_false, s3) \<Rightarrow>
                         if exit_if_true \<noteq> None \<and> exit_if_false \<noteq> None
                         then Inr (Some (Tree cd ccs), s3)
                         else Inr (None, s3))))
        | _ \<Rightarrow> Inl ValueError)
     else
       (case type_check_expr self (Tree cd ccs) s of Inl e \<Rightarrow> Inl e
        | Inr (expr_type, s1) \<Rightarrow> Inr (None, s1)))"
| "check_function_body scope [] exit_point warned s = Inr (exit_point, s)"
| "check_function_body scope (instruction # rest) exit_point warned s =
    (case type_check_command scope instruction s of Inl e \<Rightarrow> Inl e
     | Inr (exit, s1) \<Rightarrow>
        if exit \<noteq> None \<and> exit_point = None
        then check_function_body scope rest exit warned s1
        else (case exit_point of
                Some ep \<Rightarrow>
                  if \<not> warned
                  then check_function_body scope rest exit_point True
                         (add_warning ep UnreachableCode s1)
                  else check_function_body scope rest exit_point warned s1
              | None \<Rightarrow> check_function_body scope rest exit_point warned s1))"
| "check_loop_body scope [] exit_point s = Inr (exit_point, s)"
| "check_loop_body scope (child # rest) exit_point s =
    (case type_check_command scope child s of Inl e \<Rightarrow> Inl e
     | Inr (exit, s1) \<Rightarrow>
        check_loop_body scope rest (if exit_point = None then exit else exit_point) s1)"
  by pat_completeness auto

lemma function_def_head_length: "function_def_head self ccs s = Inr b \<Longrightarrow> 2 < length ccs"
  by (auto simp: function_def_head_def split: if_splits)

termination type_check_command
  apply (relation "measure (\<lambda>x. case x of
            Inl (self, e, s) \<Rightarrow> size e
          | Inr (Inl (scope, body, ep, w, s)) \<Rightarrow> size_list size body
          | Inr (Inr (scope, body, ep, s)) \<Rightarrow> size_list size body)")
  apply (simp_all add: less_Suc_eq_le)
  apply (frule function_def_head_length)
  apply (drule (1) size_nth_tree)
  apply simp
  done

text \<open>\<open>type_check\<close>: a scope under the global scope, one \<open>type_check_command\<close> per
  command of the program, the diagnostics printed (warnings first), the two counts
  returned.\<close>

fun type_check_commands :: "nat \<Rightarrow> node list \<Rightarrow> state \<Rightarrow> exn + state" where
  "type_check_commands scope [] s = Inr s"
| "type_check_commands scope (child # rest) s =
     (case type_check_command scope child s of Inl e \<Rightarrow> Inl e
      | Inr (exit, s1) \<Rightarrow> type_check_commands scope rest s1)"

section \<open>Host operations on values\<close>

fun truthy :: "val \<Rightarrow> bool" where
  "truthy (VInt i) = (i \<noteq> 0)"
| "truthy (VFloat r) = (r \<noteq> 0)"
| "truthy (VBool b) = b"
| "truthy (VStr x) = (x \<noteq> [])"
| "truthy VNone = False"
| "truthy (VFun f) = True"

text \<open>The host's numbers: a bool is an int (False 0, True 1).\<close>

datatype num = NInt int | NFloat real

fun as_num :: "val \<Rightarrow> num option" where
  "as_num (VInt i) = Some (NInt i)"
| "as_num (VBool b) = Some (NInt (if b then 1 else 0))"
| "as_num (VFloat r) = Some (NFloat r)"
| "as_num (VStr x) = None"
| "as_num VNone = None"
| "as_num (VFun f) = None"

fun num_real :: "num \<Rightarrow> real" where
  "num_real (NInt i) = of_int i"
| "num_real (NFloat r) = r"

definition py_add :: "val \<Rightarrow> val \<Rightarrow> exn + val" where
  "py_add a b =
     (case (as_num a, as_num b) of
        (Some (NInt x), Some (NInt y)) \<Rightarrow> Inr (VInt (x + y))
      | (Some x, Some y) \<Rightarrow> Inr (VFloat (num_real x + num_real y))
      | _ \<Rightarrow> (case (a, b) of (VStr x, VStr y) \<Rightarrow> Inr (VStr (x @ y)) | _ \<Rightarrow> Inl TypeError))"

definition py_sub :: "val \<Rightarrow> val \<Rightarrow> exn + val" where
  "py_sub a b =
     (case (as_num a, as_num b) of
        (Some (NInt x), Some (NInt y)) \<Rightarrow> Inr (VInt (x - y))
      | (Some x, Some y) \<Rightarrow> Inr (VFloat (num_real x - num_real y))
      | _ \<Rightarrow> Inl TypeError)"

definition py_mul :: "val \<Rightarrow> val \<Rightarrow> exn + val" where
  "py_mul a b =
     (case (as_num a, as_num b) of
        (Some (NInt x), Some (NInt y)) \<Rightarrow> Inr (VInt (x * y))
      | (Some x, Some y) \<Rightarrow> Inr (VFloat (num_real x * num_real y))
      | (None, Some (NInt y)) \<Rightarrow>
          (case a of VStr x \<Rightarrow> Inr (VStr (concat (replicate (nat y) x))) | _ \<Rightarrow> Inl TypeError)
      | (Some (NInt x), None) \<Rightarrow>
          (case b of VStr y \<Rightarrow> Inr (VStr (concat (replicate (nat x) y))) | _ \<Rightarrow> Inl TypeError)
      | _ \<Rightarrow> Inl TypeError)"

text \<open>\<open>/\<close> is true division: two ints give a float.\<close>

definition py_truediv :: "val \<Rightarrow> val \<Rightarrow> exn + val" where
  "py_truediv a b =
     (case (as_num a, as_num b) of
        (Some x, Some y) \<Rightarrow>
          if num_real y = 0 then Inl ZeroDivisionError
          else Inr (VFloat (num_real x / num_real y))
      | _ \<Rightarrow> Inl TypeError)"

definition py_floordiv :: "val \<Rightarrow> val \<Rightarrow> exn + val" where
  "py_floordiv a b =
     (case (as_num a, as_num b) of
        (Some (NInt x), Some (NInt y)) \<Rightarrow>
          if y = 0 then Inl ZeroDivisionError else Inr (VInt (x div y))
      | (Some x, Some y) \<Rightarrow>
          if num_real y = 0 then Inl ZeroDivisionError
          else Inr (VFloat (of_int \<lfloor>num_real x / num_real y\<rfloor>))
      | _ \<Rightarrow> Inl TypeError)"

text \<open>\<open>%\<close> on a string is formatting, which the model leaves out.\<close>

definition py_mod :: "val \<Rightarrow> val \<Rightarrow> exn + val" where
  "py_mod a b =
     (case (as_num a, as_num b) of
        (Some (NInt x), Some (NInt y)) \<Rightarrow>
          if y = 0 then Inl ZeroDivisionError else Inr (VInt (x mod y))
      | (Some x, Some y) \<Rightarrow>
          if num_real y = 0 then Inl ZeroDivisionError
          else Inr (VFloat (num_real x - num_real y * of_int \<lfloor>num_real x / num_real y\<rfloor>))
      | _ \<Rightarrow> (case a of VStr x \<Rightarrow> Inl Unmodelled | _ \<Rightarrow> Inl TypeError))"

text \<open>\<open>**\<close>: an int to a non-negative int is an int, to a negative int a float. Powers
  with a float operand are left out.\<close>

definition py_pow :: "val \<Rightarrow> val \<Rightarrow> exn + val" where
  "py_pow a b =
     (case (as_num a, as_num b) of
        (Some (NInt x), Some (NInt y)) \<Rightarrow>
          if 0 \<le> y then Inr (VInt (x ^ nat y))
          else if x = 0 then Inl ZeroDivisionError
          else Inr (VFloat (1 / of_int (x ^ nat (- y))))
      | (Some x, Some y) \<Rightarrow> Inl Unmodelled
      | _ \<Rightarrow> Inl TypeError)"

definition py_neg :: "val \<Rightarrow> exn + val" where
  "py_neg a =
     (case as_num a of
        Some (NInt x) \<Rightarrow> Inr (VInt (- x))
      | Some (NFloat x) \<Rightarrow> Inr (VFloat (- x))
      | None \<Rightarrow> Inl TypeError)"

text \<open>\<open>==\<close>: numbers by value, strings by content, a function is equal to itself only.
  (Two function objects with the same fields are one object as long as no definition is
  run twice in one scope, which the evaluator never does.)\<close>

definition py_eq :: "val \<Rightarrow> val \<Rightarrow> bool" where
  "py_eq a b =
     (case (as_num a, as_num b) of
        (Some x, Some y) \<Rightarrow> num_real x = num_real y
      | (None, None) \<Rightarrow> a = b
      | _ \<Rightarrow> False)"

fun str_less :: "string \<Rightarrow> string \<Rightarrow> bool" where
  "str_less [] [] = False"
| "str_less [] (y # ys) = True"
| "str_less (x # xs) [] = False"
| "str_less (x # xs) (y # ys) =
     ((of_char x :: nat) < of_char y \<or> (x = y \<and> str_less xs ys))"

text \<open>\<open><\<close>; the other three orderings are taken from it as the host does for numbers
  and strings.\<close>

definition py_less :: "val \<Rightarrow> val \<Rightarrow> exn + bool" where
  "py_less a b =
     (case (as_num a, as_num b) of
        (Some x, Some y) \<Rightarrow> Inr (num_real x < num_real y)
      | _ \<Rightarrow> (case (a, b) of (VStr x, VStr y) \<Rightarrow> Inr (str_less x y) | _ \<Rightarrow> Inl TypeError))"

definition py_compare :: "string \<Rightarrow> val \<Rightarrow> val \<Rightarrow> exn + val" where
  "py_compare comparison a b =
     (if comparison = ''EQUALS'' then Inr (VBool (py_eq a b))
      else if comparison = ''GORE'' then
        (case py_less a b of Inl e \<Rightarrow> Inl e | Inr r \<Rightarrow> Inr (VBool (\<not> r)))
      else if comparison = ''LORE'' then
        (case py_less b a of Inl e \<Rightarrow> Inl e | Inr r \<Rightarrow> Inr (VBool (\<not> r)))
      else if comparison = ''LESS'' then
        (case py_less a b of Inl e \<Rightarrow> Inl e | Inr r \<Rightarrow> Inr (VBool r))
      else if comparison = ''GREATER'' then
        (case py_less b a of Inl e \<Rightarrow> Inl e | Inr r \<Rightarrow> Inr (VBool r))
      else if comparison = ''NEQUALS'' \<or> comparison = ''NEQUALS_QUIRKY'' then
        Inr (VBool (\<not> py_eq a b))
      else Inl SyntaxError)"

text \<open>\<open>int(text)\<close>: an optional sign and decimal digits. The host also takes blanks
  around the number, underscores between digits and digits outside ASCII; a text with
  such a character is left out of the model.\<close>

definition is_digit :: "char \<Rightarrow> bool" where
  "is_digit c = (48 \<le> (of_char c :: nat) \<and> (of_char c :: nat) \<le> 57)"

fun digits_value :: "nat \<Rightarrow> string \<Rightarrow> nat" where
  "digits_value acc [] = acc"
| "digits_value acc (c # cs) = digits_value (10 * acc + (of_char c - 48)) cs"

definition int_unmodelled_char :: "char \<Rightarrow> bool" where
  "int_unmodelled_char c =
     ((of_char c :: nat) \<in> {9, 10, 11, 12, 13, 32, 95} \<or> 128 \<le> (of_char c :: nat))"

definition py_int :: "string \<Rightarrow> exn + int" where
  "py_int text =
     (if filter int_unmodelled_char text \<noteq> [] then Inl Unmodelled
      else
        (case text of
           [] \<Rightarrow> Inl ValueError
         | c # cs \<Rightarrow>
             if c = CHR ''-'' \<or> c = CHR ''+'' then
               (if cs \<noteq> [] \<and> filter (\<lambda>x. \<not> is_digit x) cs = []
                then Inr (if c = CHR ''-'' then - int (digits_value 0 cs)
                          else int (digits_value 0 cs))
                else Inl ValueError)
             else if filter (\<lambda>x. \<not> is_digit x) text = []
             then Inr (int (digits_value 0 text))
             else Inl ValueError))"

text \<open>\<open>str(number)\<close> of the one native function, \<open>intInBase10\<close>. The text of a float or
  of a function object is left out.\<close>

function show_nat :: "nat \<Rightarrow> string" where
  "show_nat n =
     (if n < 10 then [char_of (48 + n)]
      else show_nat (n div 10) @ [char_of (48 + n mod 10)])"
  by pat_completeness auto
termination
  by (relation "measure id") auto

definition py_str :: "val \<Rightarrow> exn + string" where
  "py_str v =
     (case v of
        VInt i \<Rightarrow> Inr (if i < 0 then CHR ''-'' # show_nat (nat (- i)) else show_nat (nat i))
      | VBool b \<Rightarrow> Inr (if b then ''True'' else ''False'')
      | VStr x \<Rightarrow> Inr x
      | VNone \<Rightarrow> Inr ''None''
      | VFloat r \<Rightarrow> Inl Unmodelled
      | VFun f \<Rightarrow> Inl Unmodelled)"

definition call_native :: "string \<Rightarrow> val list \<Rightarrow> exn + val" where
  "call_native host arguments =
     (if host = ''intInBase10'' then
        (case arguments of
           [number] \<Rightarrow> (case py_str number of Inl e \<Rightarrow> Inl e | Inr x \<Rightarrow> Inr (VStr x))
         | _ \<Rightarrow> Inl TypeError)
      else Inl Unmodelled)"

section \<open>The evaluator\<close>

definition eval_value :: "nat \<Rightarrow> string \<Rightarrow> string \<Rightarrow> state \<Rightarrow> exn + val" where
  "eval_value self t v s =
     (if t = ''NUMBER'' then (case py_int v of Inl e \<Rightarrow> Inl e | Inr i \<Rightarrow> Inr (VInt i))
      else if t = ''STRING'' then Inr (VStr (butlast (tl v)))
      else if t = ''BOOLEAN'' then
        (if v = ''false'' then Inr (VBool False)
         else if v = ''true'' then Inr (VBool True)
         else Inl SyntaxError)
      else if t = ''NAME'' then
        (case get_variable_err s self v of Inl e \<Rightarrow> Inl e
         | Inr variable \<Rightarrow> Inr (var_value variable))
      else Inl SyntaxError)"

text \<open>\<open>for value, (arg_type, arg_name) in zip(arguments, self.arguments):
  scope.variables[arg_name] = Variable(arg_type, value)\<close>\<close>

fun bind_arguments :: "nat \<Rightarrow> val list \<Rightarrow> (string \<times> string) list \<Rightarrow> state \<Rightarrow> state" where
  "bind_arguments scope [] params s = s"
| "bind_arguments scope (v # vs) [] s = s"
| "bind_arguments scope (v # vs) ((arg_type, arg_name) # params) s =
     bind_arguments scope vs params
       (set_variable scope arg_name (Variable (TName arg_type) v) s)"

text \<open>The \<open>function_def\<close> branch of \<open>eval_command\<close>: the function is stored under its
  name in the scope that runs the definition.\<close>

definition eval_function_def :: "nat \<Rightarrow> node list \<Rightarrow> state \<Rightarrow> exn + state" where
  "eval_function_def self ccs s =
    (if length ccs \<noteq> 3 \<and> length ccs \<noteq> 4 then Inl ValueError
     else
       (case ccs ! 0 of
          Token t0 v0 p0 \<Rightarrow> Inl AttributeError
        | Tree dd [] \<Rightarrow> Inl ValueError
        | Tree dd (name # argument_nodes) \<Rightarrow>
           (case parse_arguments argument_nodes of Inl e \<Rightarrow> Inl e
            | Inr arguments \<Rightarrow>
               (case ccs ! 1 of
                  Tree d1 cs1 \<Rightarrow> Inl AttributeError
                | Token t1 v1 p1 \<Rightarrow>
                   (case name of
                      Tree nd ncs \<Rightarrow> Inl Unmodelled
                    | Token tn vn pn \<Rightarrow>
                        Inr (set_variable self vn
                               (function_variable
                                  (Function_init self arguments v1 (ccs ! 2)
                                     (if length ccs = 4 then Some (ccs ! 3) else None))) s))))))"

definition known_comparison :: "string \<Rightarrow> bool" where
  "known_comparison c =
     (c = ''EQUALS'' \<or> c = ''GORE'' \<or> c = ''LORE'' \<or> c = ''LESS'' \<or> c = ''GREATER''
      \<or> c = ''NEQUALS'' \<or> c = ''NEQUALS_QUIRKY'')"

text \<open>
  The evaluator. The first argument is fuel: it bounds the depth of calls of user
  functions and is used up by nothing else, so an expression without calls evaluates
  with any fuel. An exception ends the program; the model keeps the exception, not
  the state it leaves behind.

  \<^item> \<open>eval_operands\<close> is \<open>self.eval_expr(left) OP self.eval_expr(right)\<close> up to the
    operator: left first, then right.
  \<^item> \<open>eval_comparison\<close> is the chain of \<open>if comparison == ...\<close> that ends the
    \<open>compare_expression\<close> branch.
  \<^item> \<open>eval_arguments\<close> is \<open>[self.eval_expr(arg) for arg in arguments]\<close>.
  \<^item> \<open>run\<close> is \<open>Function.run\<close> and \<open>NativeFunction.run\<close>.
  \<^item> \<open>eval_commands\<close> is the loop over the commands of a block, in \<open>Function.run\<close> and
    in the \<open>loop\<close> command: it stops at the first command that exits.
  \<^item> \<open>eval_loop\<close> is \<open>for i in range(int(times))\<close>, over the values of \<open>i\<close> still to
    come.
\<close>

function (sequential)
  eval_expr :: "nat \<Rightarrow> nat \<Rightarrow> node \<Rightarrow> state \<Rightarrow> exn + (val \<times> state)" and
  eval_operands :: "nat \<Rightarrow> nat \<Rightarrow> node \<Rightarrow> node \<Rightarrow> state \<Rightarrow> exn + ((val \<times> val) \<times> state)" and
  eval_comparison :: "nat \<Rightarrow> nat \<Rightarrow> node \<Rightarrow> node \<Rightarrow> node \<Rightarrow> state \<Rightarrow> exn + (val \<times> state)" and
  eval_arguments :: "nat \<Rightarrow> nat \<Rightarrow> node list \<Rightarrow> state \<Rightarrow> exn + (val list \<times> state)" and
  run :: "nat \<Rightarrow> func \<Rightarrow> val list \<Rightarrow> state \<Rightarrow> exn + (val \<times> state)" and
  eval_command :: "nat \<Rightarrow> nat \<Rightarrow> node \<Rightarrow> state \<Rightarrow> exn + ((bool \<times> val) \<times> state)" and
  eval_commands :: "nat \<Rightarrow> nat \<Rightarrow> node list \<Rightarrow> state \<Rightarrow> exn + ((bool \<times> val) \<times> state)" and
  eval_loop ::
    "nat \<Rightarrow> nat \<Rightarrow> string \<Rightarrow> string \<Rightarrow> node \<Rightarrow> int list \<Rightarrow> state \<Rightarrow> exn + ((bool \<times> val) \<times> state)"
where
  "eval_expr n self (Token t v p) s =
    (case eval_value self t v s of Inl e \<Rightarrow> Inl e | Inr x \<Rightarrow> Inr (x, s))"
| "eval_expr n self (Tree d cs) s =
    (if d = ''ifelse_expr'' then
       (case cs of
          [condition, if_true, if_false] \<Rightarrow>
            (case eval_expr n self condition s of Inl e \<Rightarrow> Inl e
             | Inr (c, s1) \<Rightarrow>
                 if truthy c then eval_expr n self if_true s1
                 else eval_expr n self if_false s1)
        | _ \<Rightarrow> Inl ValueError)
     else if d = ''function_callback'' then
       (case cs of
          [] \<Rightarrow> Inl IndexError
        | Token t0 v0 p0 # _ \<Rightarrow> Inl AttributeError
        | Tree d0 [] # _ \<Rightarrow> Inl ValueError
        | Tree d0 (function # arguments) # _ \<Rightarrow>
            (case eval_expr n self function s of Inl e \<Rightarrow> Inl e
             | Inr (VFun f, s1) \<Rightarrow>
                 (case eval_arguments n self arguments s1 of Inl e \<Rightarrow> Inl e
                  | Inr (values, s2) \<Rightarrow> run n f values s2)
             | Inr (_, s1) \<Rightarrow> Inl AttributeError))
     else if d = ''imported_command'' then
       (case cs of
          l # c # args \<Rightarrow>
            (case l of
               Token lt lv lp \<Rightarrow>
                 if lv \<in> set (imports_list (scopes s ! self)) then Inl Unmodelled
                 else Inl SyntaxError
             | Tree ld lcs \<Rightarrow> Inl SyntaxError)
        | _ \<Rightarrow> Inl ValueError)
     else if d = ''or_expression'' then
       (case cs of
          [left, operation, right] \<Rightarrow>
            (case eval_expr n self left s of Inl e \<Rightarrow> Inl e
             | Inr (l, s1) \<Rightarrow> if truthy l then Inr (l, s1) else eval_expr n self right s1)
        | _ \<Rightarrow> Inl ValueError)
     else if d = ''and_expression'' then
       (case cs of
          [left, operation, right] \<Rightarrow>
            (case eval_expr n self left s of Inl e \<Rightarrow> Inl e
             | Inr (l, s1) \<Rightarrow> if truthy l then eval_expr n self right s1 else Inr (l, s1))
        | _ \<Rightarrow> Inl ValueError)
     else if d = ''not_expression'' then
       (case cs of
          [operation, value] \<Rightarrow>
            (case eval_expr n self value s of Inl e \<Rightarrow> Inl e
             | Inr (x, s1) \<Rightarrow> Inr (VBool (\<not> truthy x), s1))
        | _ \<Rightarrow> Inl ValueError)
     else if d = ''compare_expression'' then
       (case cs of
          [left, comparison, right] \<Rightarrow>
            (case left of
               Token lt lv lp \<Rightarrow> Inl AttributeError
             | Tree ld lcs \<Rightarrow>
                 if ld = ''compare_expression'' then
                   (case eval_expr n self (Tree ld lcs) s of Inl e \<Rightarrow> Inl e
                    | Inr (l, s1) \<Rightarrow>
                        if \<not> truthy l then Inr (VBool False, s1)
                        else if length lcs < 3 then Inl IndexError
                        else eval_comparison n self (lcs ! 2) comparison right s1)
                 else eval_comparison n self (Tree ld lcs) comparison right s)
        | _ \<Rightarrow> Inl ValueError)
     else if d = ''sum_expression'' then
       (case cs of
          [left, operation, right] \<Rightarrow>
            (case operation of
               Tree od ocs \<Rightarrow> Inl AttributeError
             | Token ot ov op \<Rightarrow>
                 if ot = ''ADD'' \<or> ot = ''SUBTRACT'' then
                   (case eval_operands n self left right s of Inl e \<Rightarrow> Inl e
                    | Inr ((a, b), s1) \<Rightarrow>
                       (case (if ot = ''ADD'' then py_add a b else py_sub a b) of
                          Inl e \<Rightarrow> Inl e
                        | Inr r \<Rightarrow> Inr (r, s1)))
                 else Inl SyntaxError)
        | _ \<Rightarrow> Inl ValueError)
     else if d = ''product_expression'' then
       (case cs of
          [left, operation, right] \<Rightarrow>
            (case operation of
               Tree od ocs \<Rightarrow> Inl AttributeError
             | Token ot ov op \<Rightarrow>
                 if ot = ''MULTIPLY'' \<or> ot = ''DIVIDE'' \<or> ot = ''ROUNDDIV'' \<or> ot = ''MODULO'' then
                   (case eval_operands n self left right s of Inl e \<Rightarrow> Inl e
                    | Inr ((a, b), s1) \<Rightarrow>
                       (case (if ot = ''MULTIPLY'' then py_mul a b
                              else if ot = ''DIVIDE'' then py_truediv a b
                              else if ot = ''ROUNDDIV'' then py_floordiv a b
                              else py_mod a b) of
                          Inl e \<Rightarrow> Inl e
                        | Inr r \<Rightarrow> Inr (r, s1)))
                 else Inl SyntaxError)
        | _ \<Rightarrow> Inl ValueError)
     else if d = ''exponent_expression'' then
       (case cs of
          [left, operation, right] \<Rightarrow>
            (case eval_operands n self left right s of Inl e \<Rightarrow> Inl e
             | Inr ((a, b), s1) \<Rightarrow>
                (case py_pow a b of Inl e \<Rightarrow> Inl e | Inr r \<Rightarrow> Inr (r, s1)))
        | _ \<Rightarrow> Inl ValueError)
     else if d = ''unary_expression'' then
       (case cs of
          [operation, value] \<Rightarrow>
            (case operation of
               Tree od ocs \<Rightarrow> Inl AttributeError
             | Token ot ov op \<Rightarrow>
                 if ot = ''NEGATE'' then
                   (case eval_expr n self value s of Inl e \<Rightarrow> Inl e
                    | Inr (x, s1) \<Rightarrow>
                       (case py_neg x of Inl e \<Rightarrow> Inl e | Inr r \<Rightarrow> Inr (r, s1)))
                 else Inl SyntaxError)
        | _ \<Rightarrow> Inl ValueError)
     else if d = ''value'' then
       (case cs of
          [] \<Rightarrow> Inl IndexError
        | Tree d0 cs0 # _ \<Rightarrow> eval_expr n self (Tree d0 cs0) s
        | Token t0 v0 p0 # _ \<Rightarrow>
            (case eval_value self t0 v0 s of Inl e \<Rightarrow> Inl e | Inr x \<Rightarrow> Inr (x, s)))
     else Inl SyntaxError)"
| "eval_operands n self left right s =
    (case eval_expr n self left s of Inl e \<Rightarrow> Inl e
     | Inr (a, s1) \<Rightarrow>
        (case eval_expr n self right s1 of Inl e \<Rightarrow> Inl e
         | Inr (b, s2) \<Rightarrow> Inr ((a, b), s2)))"
| "eval_comparison n self left (Tree cd ccs) right s = Inl AttributeError"
| "eval_comparison n self left (Token ct cv cp) right s =
    (if known_comparison ct then
       (case eval_operands n self left right s of Inl e \<Rightarrow> Inl e
        | Inr ((a, b), s1) \<Rightarrow>
           (case py_compare ct a b of Inl e \<Rightarrow> Inl e | Inr r \<Rightarrow> Inr (r, s1)))
     else Inl SyntaxError)"
| "eval_arguments n self [] s = Inr ([], s)"
| "eval_arguments n self (arg # args) s =
    (case eval_expr n self arg s of Inl e \<Rightarrow> Inl e
     | Inr (x, s1) \<Rightarrow>
        (case eval_arguments n self args s1 of Inl e \<Rightarrow> Inl e
         | Inr (xs, s2) \<Rightarrow> Inr (x # xs, s2)))"
| "run n (NativeFunction sc params rt host) arguments s =
    (case call_native host arguments of Inl e \<Rightarrow> Inl e | Inr r \<Rightarrow> Inr (r, s))"
| "run 0 (Function sc params rt codeblock defaultreturn) arguments s = Inl OutOfFuel"
| "run (Suc n) (Function sc params rt codeblock defaultreturn) arguments s =
    (case new_scope sc (Some (Function sc params rt codeblock defaultreturn)) s of
       (scope, s1) \<Rightarrow>
         if length arguments < length params
         then Inl (MissingArguments (map snd (drop (length arguments) params)))
         else
           (case codeblock of
              Token tc vc pc \<Rightarrow> Inl AttributeError
            | Tree bd body \<Rightarrow>
               (case eval_commands n scope body (bind_arguments scope arguments params s1) of
                  Inl e \<Rightarrow> Inl e
                | Inr ((exit, value), s2) \<Rightarrow>
                    if exit then Inr (value, s2)
                    else
                      (case defaultreturn of
                         None \<Rightarrow> Inl AttributeError
                       | Some expr \<Rightarrow> eval_expr n scope expr s2))))"
| "eval_command n self (Token t v p) s = Inl AttributeError"
| "eval_command n self (Tree d []) s =
    (if d \<noteq> ''instruction'' then Inl (NameError ''t'') else Inl IndexError)"
| "eval_command n self (Tree d (Token t0 v0 p0 # rest)) s =
    (if d \<noteq> ''instruction'' then Inl (NameError ''t'') else Inl AttributeError)"
| "eval_command n self (Tree d (Tree cd ccs # rest)) s =
    (if d \<noteq> ''instruction'' then Inl (NameError ''t'')
     else if cd = ''imp'' then Inl Unmodelled
     else if cd = ''function_def'' then
       (case eval_function_def self ccs s of Inl e \<Rightarrow> Inl e
        | Inr s1 \<Rightarrow> Inr ((False, VNone), s1))
     else if cd = ''loop'' then
       (case ccs of
          [times_node, var, code] \<Rightarrow>
            (case var of
               Token tv vv pv \<Rightarrow> Inl AttributeError
             | Tree vd [name, type] \<Rightarrow>
                (case (name, type) of
                   (Token tn vn pn, Token tt type_name tp) \<Rightarrow>
                     (case (case times_node of
                              Token t1 text p1 \<Rightarrow> py_int text
                            | Tree d1 cs1 \<Rightarrow> Inl TypeError) of
                        Inl e \<Rightarrow> Inl e
                      | Inr k \<Rightarrow>
                          eval_loop n self vn type_name code (map int [0..<nat k])
                            (if type_name \<noteq> ''int''
                             then print_out (PrintCannotLoop type_name) s else s))
                 | _ \<Rightarrow> Inl Unmodelled)
             | Tree vd other \<Rightarrow> Inl ValueError)
        | _ \<Rightarrow> Inl ValueError)
     else if cd = ''print'' then
       (case ccs of
          [] \<Rightarrow> Inl IndexError
        | e # _ \<Rightarrow>
           (case eval_expr n self e s of Inl e \<Rightarrow> Inl e
            | Inr (x, s1) \<Rightarrow> Inr ((False, VNone), print_out (PrintValue x) s1)))
     else if cd = ''return'' then
       (case ccs of
          [] \<Rightarrow> Inl IndexError
        | e # _ \<Rightarrow>
           (case eval_expr n self e s of Inl e \<Rightarrow> Inl e
            | Inr (x, s1) \<Rightarrow> Inr ((True, x), s1)))
     else if cd = ''declare'' then
       (case ccs of
          [name_type, value] \<Rightarrow>
            (case name_type of
               Token t1 v1 p1 \<Rightarrow> Inl AttributeError
             | Tree nd [name, type] \<Rightarrow>
                (case eval_expr n self value s of Inl e \<Rightarrow> Inl e
                 | Inr (x, s1) \<Rightarrow>
                    (case (name, type) of
                       (Token tn vn pn, Token tt type_name tp) \<Rightarrow>
                         Inr ((False, VNone),
                              set_variable self vn (Variable (TName type_name) x) s1)
                     | _ \<Rightarrow> Inl Unmodelled))
             | Tree nd other \<Rightarrow> Inl ValueError)
        | _ \<Rightarrow> Inl ValueError)
     else if cd = ''if'' then
       (case ccs of
          [condition, body] \<Rightarrow>
            (case eval_expr n self condition s of Inl e \<Rightarrow> Inl e
             | Inr (c, s1) \<Rightarrow>
                 if truthy c then
                   (case new_scope self None s1 of
                      (scope, s2) \<Rightarrow>
                        (case eval_command n scope body s2 of Inl e \<Rightarrow> Inl e
                         | Inr ((exit, value), s3) \<Rightarrow>
                             if exit then Inr ((True, value), s3)
                             else Inr ((False, VNone), s3)))
                 else Inr ((False, VNone), s1))
        | _ \<Rightarrow> Inl ValueError)
     else if cd = ''ifelse'' then
       (case ccs of
          [condition, if_true, if_false] \<Rightarrow>
            (case eval_expr n self condition s of Inl e \<Rightarrow> Inl e
             | Inr (c, s1) \<Rightarrow>
                (case new_scope self None s1 of
                   (scope, s2) \<Rightarrow>
                     (case (if truthy c then eval_command n scope if_true s2
                            else eval_command n scope if_false s2) of
                        Inl e \<Rightarrow> Inl e
                      | Inr ((exit, value), s3) \<Rightarrow>
                          if exit then Inr ((True, value), s3)
                          else Inr ((False, VNone), s3))))
        | _ \<Rightarrow> Inl ValueError)
     else
       (case eval_expr n self (Tree cd ccs) s of Inl e \<Rightarrow> Inl e
        | Inr (x, s1) \<Rightarrow> Inr ((False, VNone), s1)))"
| "eval_commands n scope [] s = Inr ((False, VNone), s)"
| "eval_commands n scope (child # rest) s =
    (case eval_command n scope child s of Inl e \<Rightarrow> Inl e
     | Inr ((exit, value), s1) \<Rightarrow>
         if exit then Inr ((True, value), s1) else eval_commands n scope rest s1)"
| "eval_loop n self name type code [] s = Inr ((False, VNone), s)"
| "eval_loop n self name type code (i # rest) s =
    (case new_scope self None s of
       (scope, s1) \<Rightarrow>
         (case code of
            Token tc vc pc \<Rightarrow> Inl AttributeError
          | Tree bd body \<Rightarrow>
             (case eval_commands n scope body
                     (set_variable scope name (Variable (TName type) (VInt i)) s1) of
                Inl e \<Rightarrow> Inl e
              | Inr ((exit, value), s2) \<Rightarrow>
                  if exit then Inr ((True, value), s2)
                  else eval_loop n self name type code rest s2)))"
  by pat_completeness auto

termination eval_expr
  apply (relation "inv_image (less_than <*lex*> less_than <*lex*> less_than)
     (\<lambda>x. case x of
        Inl (Inl (Inl (n, self, e, s))) \<Rightarrow> (n, size e, 0)
      | Inl (Inl (Inr (n, self, l, r, s))) \<Rightarrow> (n, size l + size r + 1, 0)
      | Inl (Inr (Inl (n, self, l, c, r, s))) \<Rightarrow> (n, size l + size r + 2, 0)
      | Inl (Inr (Inr (n, self, args, s))) \<Rightarrow> (n, size_list size args, 0)
      | Inr (Inl (Inl (n, f, args, s))) \<Rightarrow> (n, 0, 0)
      | Inr (Inl (Inr (n, self, e, s))) \<Rightarrow> (n, size e, 0)
      | Inr (Inr (Inl (n, scope, body, s))) \<Rightarrow> (n, size_list size body, 0)
      | Inr (Inr (Inr (n, self, name, ty, code, is, s))) \<Rightarrow> (n, size code, length is))")
  apply (simp_all add: wf_lex_prod)
  apply (cut_tac i = 2 and cs = x22c in size_nth_children)
  apply simp_all
  done

text \<open>The equations of the two checkers and the two evaluators for a tree are large and
  call themselves on trees again, so they are unfolded by name only.\<close>

declare type_check_expr.simps(2) [simp del]
declare type_check_command.simps(4) [simp del]
declare eval_expr.simps(2) [simp del]
declare eval_command.simps(4) [simp del]

lemmas checker_simps = type_check_expr.simps(2) type_check_command.simps(4)

lemmas evaluator_simps = eval_expr.simps(2) eval_command.simps(4)

section \<open>The driver\<close>

text \<open>
  The state the program starts from: the global scope (scope 0) with the native function
  \<open>intInBase10\<close>, empty lists of errors and warnings, nothing printed.
\<close>

definition global_scope :: state where
  "global_scope =
     \<lparr>scopes =
        [\<lparr>parent = None, parent_function = None, imports_list = [],
          variables =
            [(''intInBase10'',
              function_variable (NativeFunction 0 [(''int'', ''number'')] ''str'' ''intInBase10''))]\<rparr>],
      errors = [], warnings = [], stdout = []\<rparr>"

definition type_check :: "node \<Rightarrow> state \<Rightarrow> exn + ((nat \<times> nat) \<times> state)" where
  "type_check tree s =
     (case new_scope 0 None s of
        (scope, s1) \<Rightarrow>
          (case tree of
             Token t v p \<Rightarrow> Inl AttributeError
           | Tree d cs \<Rightarrow>
              (case (if d = ''start'' then type_check_commands scope cs s1
                     else Inr (add_error (Tree d cs) NonStartingBranch s1)) of
                 Inl e \<Rightarrow> Inl e
               | Inr s2 \<Rightarrow>
                   Inr ((length (errors s2), length (warnings s2)),
                        print_out (PrintDiagnostics (warnings s2) (errors s2)) s2))))"

text \<open>\<open>for child in tree.children: scope.eval_command(child)\<close> of \<open>parse_tree\<close>: what a
  command returns is dropped.\<close>

fun eval_program :: "nat \<Rightarrow> nat \<Rightarrow> node list \<Rightarrow> state \<Rightarrow> exn + state" where
  "eval_program n scope [] s = Inr s"
| "eval_program n scope (child # rest) s =
     (case eval_command n scope child s of Inl e \<Rightarrow> Inl e
      | Inr (r, s1) \<Rightarrow> eval_program n scope rest s1)"

definition parse_tree :: "nat \<Rightarrow> node \<Rightarrow> state \<Rightarrow> exn + state" where
  "parse_tree n tree s =
     (case tree of
        Token t v p \<Rightarrow> Inl AttributeError
      | Tree d cs \<Rightarrow>
          if d = ''start'' then
            (case new_scope 0 None s of (scope, s1) \<Rightarrow> eval_program n scope cs s1)
          else Inl SyntaxError)"

text \<open>The last five lines of the program: check, run, and report the counts if there
  was an error.\<close>

definition driver :: "nat \<Rightarrow> node \<Rightarrow> exn + state" where
  "driver n tree =
     (case type_check tree global_scope of
        Inl e \<Rightarrow> Inl e
      | Inr ((error_count, warning_count), s1) \<Rightarrow>
          (case parse_tree n tree s1 of
             Inl e \<Rightarrow> Inl e
           | Inr s2 \<Rightarrow>
               Inr (if error_count > 0
                    then print_out (PrintRanWith error_count warning_count) s2
                    else s2)))"

section \<open>Sample programs\<close>

text \<open>
  The state in which the commands of a program are checked and run: scope 1 is the scope
  that \<open>type_check\<close> and \<open>parse_tree\<close> open under the global scope. The trees below are
  the programs quoted in the properties, with operands wrapped in \<open>value\<close> nodes.
\<close>

definition start_state :: state where
  "start_state = snd (new_scope 0 None global_scope)"

definition number :: "string \<Rightarrow> nat \<Rightarrow> node" where
  "number text col = Tree ''value'' [Token ''NUMBER'' text (1, col, 1, col + length text)]"

definition name_ref :: "string \<Rightarrow> nat \<Rightarrow> node" where
  "name_ref text col = Tree ''value'' [Token ''NAME'' text (1, col, 1, col + length text)]"

definition instruction :: "node \<Rightarrow> node" where
  "instruction command = Tree ''instruction'' [command]"

definition compare_expression :: "node \<Rightarrow> node \<Rightarrow> node \<Rightarrow> node" where
  "compare_expression left operator right = Tree ''compare_expression'' [left, operator, right]"

definition equals :: "nat \<Rightarrow> node" where
  "equals col = Token ''EQUALS'' ''='' (1, col, 1, col + 1)"

text \<open>\<open>1 = 2 = 3\<close> and \<open>1 = 1 = 1\<close>.\<close>

definition one_two_three :: node where
  "one_two_three =
     compare_expression (compare_expression (number ''1'' 1) (equals 3) (number ''2'' 5)) (equals 7) (number ''3'' 9)"

definition one_one_one :: node where
  "one_one_one =
     compare_expression (compare_expression (number ''1'' 1) (equals 3) (number ''1'' 5)) (equals 7) (number ''1'' 9)"

text \<open>\<open>type(v).__name__\<close> of a host value.\<close>

fun host_type :: "val \<Rightarrow> string" where
  "host_type (VInt i) = ''int''"
| "host_type (VFloat r) = ''float''"
| "host_type (VBool b) = ''bool''"
| "host_type (VStr x) = ''str''"
| "host_type VNone = ''NoneType''"
| "host_type (VFun f) = ''Function''"

text \<open>\<open>not 1\<close>, \<open>2 ^ 3\<close> and \<open>4 / 2\<close>.\<close>

definition not_one :: node where
  "not_one = Tree ''not_expression'' [Token ''NOT'' ''not'' (1, 1, 1, 4), number ''1'' 5]"

definition two_to_three :: node where
  "two_to_three =
     Tree ''exponent_expression'' [number ''2'' 1, Token ''EXPONENT'' ''^'' (1, 3, 1, 4), number ''3'' 5]"

definition four_by_two :: node where
  "four_by_two =
     Tree ''product_expression'' [number ''4'' 1, Token ''DIVIDE'' ''/'' (1, 3, 1, 4), number ''2'' 5]"

text \<open>\<open>fun name() -> int { body }\<close>, a function without arguments and without a default
  return.\<close>

definition function_def :: "string \<Rightarrow> node list \<Rightarrow> node" where
  "function_def name body =
     Tree ''function_def''
       [Tree ''deccall'' [Token ''NAME'' name (1, 5, 1, 5 + length name)],
        Token ''NAME'' ''int'' (1, 12, 1, 15),
        Tree ''code_block'' body]"

text \<open>\<open>fun f() -> int { if true { return 1 } else { print x }; print 2 }\<close>, where \<open>x\<close> is
  not defined.\<close>

definition if_else_command :: node where
  "if_else_command =
     Tree ''ifelse''
       [Tree ''value'' [Token ''BOOLEAN'' ''true'' (1, 21, 1, 25)],
        instruction (Tree ''return'' [number ''1'' 35]),
        instruction (Tree ''print'' [name_ref ''x'' 52])]"

definition if_else_program :: node where
  "if_else_program =
     Tree ''start''
       [instruction (function_def ''f''
          [instruction if_else_command, instruction (Tree ''print'' [number ''2'' 63])])]"

text \<open>\<open>print 1\<close>, and \<open>return 1\<close> outside a function.\<close>

definition print_one_program :: node where
  "print_one_program = Tree ''start'' [instruction (Tree ''print'' [number ''1'' 7])]"

definition return_at_top_program :: node where
  "return_at_top_program = Tree ''start'' [instruction (Tree ''return'' [number ''1'' 8])]"

text \<open>The function values of \<open>fun f() -> int { print 1 }\<close> and of
  \<open>fun f(a: int) -> int { return a }\<close>, defined in scope 1.\<close>

definition print_one_function :: func where
  "print_one_function =
     Function 1 [] ''int'' (Tree ''code_block'' [instruction (Tree ''print'' [number ''1'' 26])]) None"


text \<open>\<open>for text times as (name: int) { body }\<close>; the program \<open>for 5 times as (i: int)
  { print i }\<close>; and \<open>for 3 times as (i: int) { print i; return i }\<close>.\<close>

definition for_loop :: "string \<Rightarrow> string \<Rightarrow> node list \<Rightarrow> node" where
  "for_loop text name body =
     Tree ''loop''
       [Token ''NUMBER'' text (1, 5, 1, 5 + length text),
        Tree ''name_type'' [Token ''NAME'' name (1, 17, 1, 18), Token ''NAME'' ''int'' (1, 20, 1, 23)],
        Tree ''code_block'' body]"

definition five_times :: node where
  "five_times = for_loop ''5'' ''i'' [instruction (Tree ''print'' [name_ref ''i'' 33])]"

definition returning_loop :: node where
  "returning_loop =
     for_loop ''3'' ''i''
       [instruction (Tree ''print'' [name_ref ''i'' 33]),
        instruction (Tree ''return'' [name_ref ''i'' 43])]"

text \<open>\<open>fun g() -> int { return 1; print 2 }\<close>, and
  \<open>fun h() -> int { if true { return 1 } else { return 2 }; return 3; print 4 }\<close>.\<close>

definition unreachable_program :: node where
  "unreachable_program =
     Tree ''start''
       [instruction (function_def ''g''
          [instruction (Tree ''return'' [number ''1'' 26]),
           instruction (Tree ''print'' [number ''2'' 35])])]"

definition both_return_command :: node where
  "both_return_command =
     Tree ''ifelse''
       [Tree ''value'' [Token ''BOOLEAN'' ''true'' (1, 21, 1, 25)],
        instruction (Tree ''return'' [number ''1'' 35]),
        instruction (Tree ''return'' [number ''2'' 53])]"

definition both_return_program :: node where
  "both_return_program =
     Tree ''start''
       [instruction (function_def ''h''
          [instruction both_return_command,
           instruction (Tree ''return'' [number ''3'' 65]),
           instruction (Tree ''print'' [number ''4'' 74])])]"

text \<open>\<open>fun g() -> int { for 2 times as (i: int) { return 1 }; print 2 }\<close>.\<close>

definition loop_return_program :: node where
  "loop_return_program =
     Tree ''start''
       [instruction (function_def ''g''
          [instruction (for_loop ''2'' ''i'' [instruction (Tree ''return'' [number ''1'' 45])]),
           instruction (Tree ''print'' [number ''2'' 56])])]"

text \<open>A node and the nodes below it, in the order of the source text.\<close>

fun subnodes :: "node \<Rightarrow> node list" where
  "subnodes (Token t v p) = [Token t v p]"
| "subnodes (Tree d cs) = Tree d cs # concat (map subnodes cs)"

text \<open>The definitions that evaluating a sample program unfolds.\<close>

lemmas sample_defs =
  number_def name_ref_def instruction_def compare_expression_def equals_def

lemmas literal_defs =
  eval_value_def py_int_def int_unmodelled_char_def is_digit_def get_value_type_def

lemmas checker_defs =
  type_check_def function_def_head_def Function_init_def function_variable_def
  new_scope_def set_variable_def add_error_def add_warning_def print_out_def
  global_scope_def binary_operation_types_def unary_operation_types_def
  comparable_types_def iterable_types_def Let_def

lemmas evaluator_defs =
  parse_tree_def driver_def eval_function_def_def known_comparison_def py_compare_def py_eq_def

section \<open>Properties\<close>

text \<open>
  C1. The type reported by \<open>type_check_expr\<close> should be the host type of the value that
  \<open>eval_expr\<close> produces. The code disagrees with itself on the three expressions the
  property names: \<open>not 1\<close> is checked as \<open>int\<close> and evaluates to a bool, \<open>2 ^ 3\<close> is
  checked as \<open>float\<close> and evaluates to an int, \<open>4 / 2\<close> is checked as \<open>int\<close> and
  evaluates to a float. Each of them is checked without a diagnostic (the state is
  unchanged).
\<close>

theorem C1_checker_and_evaluator_disagree:
  "type_check_expr 1 not_one start_state = Inr (Some (TName ''int''), start_state)
   \<and> eval_expr n 1 not_one start_state = Inr (VBool False, start_state)
   \<and> host_type (VBool False) = ''bool''
   \<and> type_check_expr 1 two_to_three start_state = Inr (Some (TName ''float''), start_state)
   \<and> eval_expr n 1 two_to_three start_state = Inr (VInt 8, start_state)
   \<and> host_type (VInt 8) = ''int''
   \<and> type_check_expr 1 four_by_two start_state = Inr (Some (TName ''int''), start_state)
   \<and> eval_expr n 1 four_by_two start_state = Inr (VFloat 2, start_state)
   \<and> host_type (VFloat 2) = ''float''"
  by (simp add: not_one_def two_to_three_def four_by_two_def sample_defs literal_defs
        checker_simps evaluator_simps
        unary_operation_types_def binary_operation_types_def py_pow_def py_truediv_def)

subsection \<open>Comparison chains\<close>

lemma py_compare_bool: "py_compare ct a b = Inr v \<Longrightarrow> \<exists>r. v = VBool r"
  by (clarsimp simp: py_compare_def split: if_split_asm sum.split_asm)

lemma eval_comparison_bool:
  "eval_comparison n self l cmp r s = Inr (v, s') \<Longrightarrow> \<exists>b. v = VBool b"
  by (cases cmp) (clarsimp split: if_split_asm sum.split_asm dest!: py_compare_bool)+

text \<open>The \<open>compare_expression\<close> branch of \<open>eval_expr\<close>.\<close>

lemma eval_compare_expression:
  "eval_expr n self (Tree ''compare_expression'' cs) s =
     (case cs of
          [left, comparison, right] \<Rightarrow>
            (case left of
               Token lt lv lp \<Rightarrow> Inl AttributeError
             | Tree ld lcs \<Rightarrow>
                 if ld = ''compare_expression'' then
                   (case eval_expr n self (Tree ld lcs) s of Inl e \<Rightarrow> Inl e
                    | Inr (l, s1) \<Rightarrow>
                        if \<not> truthy l then Inr (VBool False, s1)
                        else if length lcs < 3 then Inl IndexError
                        else eval_comparison n self (lcs ! 2) comparison right s1)
                 else eval_comparison n self (Tree ld lcs) comparison right s)
        | _ \<Rightarrow> Inl ValueError)"
  by (subst eval_expr.simps(2)) simp

text \<open>A comparison evaluates to a bool, whatever its operands.\<close>

lemma compare_expression_bool:
  "eval_expr n self (Tree ''compare_expression'' cs) s = Inr (v, s') \<Longrightarrow> \<exists>b. v = VBool b"
  apply (subst (asm) eval_compare_expression)
  apply (clarsimp split: list.split_asm node.split_asm if_split_asm sum.split_asm
           dest!: eval_comparison_bool)
   apply blast
  apply (blast dest: eval_comparison_bool)
  done

lemma eval_chain:
  "eval_expr n self (compare_expression (compare_expression a op1 b) op2 c) s =
     (case eval_expr n self (compare_expression a op1 b) s of
        Inl e \<Rightarrow> Inl e
      | Inr (l, s1) \<Rightarrow>
          if truthy l then eval_comparison n self b op2 c s1 else Inr (VBool False, s1))"
  unfolding compare_expression_def
  by (subst eval_compare_expression) (simp split: sum.split prod.split)

lemma eval_link:
  "bd \<noteq> ''compare_expression'' \<Longrightarrow>
   eval_expr n self (compare_expression (Tree bd bcs) op2 c) s =
     eval_comparison n self (Tree bd bcs) op2 c s"
  unfolding compare_expression_def by (simp add: eval_compare_expression)

text \<open>
  C3. A comparison chain \<open>a OP1 b OP2 c\<close> is the tree \<open>(a OP1 b) OP2 c\<close>. It evaluates
  to true exactly when the left link \<open>a OP1 b\<close> evaluates to true and then, in the state
  the left link leaves, \<open>b OP2 c\<close> evaluates to true: \<open>b\<close>, the right operand of the left
  link, is the left operand of the second comparison. When the left link is false the
  chain is false and nothing more is evaluated (the state is the one the left link
  leaves). Here \<open>b\<close> is an operand as the parser gives it, a tree that is not itself a
  comparison. In particular \<open>1 = 2 = 3\<close> is checked as \<open>bool\<close> without a diagnostic and
  evaluates to false.
\<close>

theorem C3_comparison_chain:
  assumes "b = Tree bd bcs" and "bd \<noteq> ''compare_expression''"
  shows
    "(eval_expr n self (compare_expression (compare_expression a op1 b) op2 c) s = Inr (VBool True, s2)
        \<longleftrightarrow> (\<exists>s1. eval_expr n self (compare_expression a op1 b) s = Inr (VBool True, s1)
                  \<and> eval_expr n self (compare_expression b op2 c) s1 = Inr (VBool True, s2)))
     \<and> (\<forall>s1. eval_expr n self (compare_expression a op1 b) s = Inr (VBool False, s1)
              \<longrightarrow> eval_expr n self (compare_expression (compare_expression a op1 b) op2 c) s
                    = Inr (VBool False, s1))
     \<and> (\<exists>s'. type_check_expr 1 one_two_three start_state = Inr (Some (TName ''bool''), s')
              \<and> errors s' = [] \<and> warnings s' = [])
     \<and> eval_expr n 1 one_two_three start_state = Inr (VBool False, start_state)"
proof -
  have link: "\<And>s1. eval_expr n self (compare_expression b op2 c) s1 = eval_comparison n self b op2 c s1"
    using assms by (simp add: eval_link)
  have true_iff:
    "eval_expr n self (compare_expression (compare_expression a op1 b) op2 c) s = Inr (VBool True, s2)
       \<longleftrightarrow> (\<exists>s1. eval_expr n self (compare_expression a op1 b) s = Inr (VBool True, s1)
                 \<and> eval_expr n self (compare_expression b op2 c) s1 = Inr (VBool True, s2))"
  proof (cases "eval_expr n self (compare_expression a op1 b) s")
    case (Inl e)
    then show ?thesis by (simp add: eval_chain)
  next
    case (Inr r)
    obtain l s1 where r: "r = (l, s1)" by (cases r)
    obtain x where l: "l = VBool x"
      using compare_expression_bool Inr r unfolding compare_expression_def by blast
    show ?thesis using Inr r l by (cases x) (simp_all add: eval_chain link)
  qed
  have short: "\<forall>s1. eval_expr n self (compare_expression a op1 b) s = Inr (VBool False, s1)
      \<longrightarrow> eval_expr n self (compare_expression (compare_expression a op1 b) op2 c) s = Inr (VBool False, s1)"
    by (simp add: eval_chain)
  have checked: "\<exists>s'. type_check_expr 1 one_two_three start_state = Inr (Some (TName ''bool''), s')
      \<and> errors s' = [] \<and> warnings s' = []"
    by (simp add: one_two_three_def sample_defs literal_defs checker_simps
          binary_operation_types_def unary_operation_types_def comparable_types_def
          start_state_def global_scope_def new_scope_def)
  have evaluated: "eval_expr n 1 one_two_three start_state = Inr (VBool False, start_state)"
    by (simp add: one_two_three_def sample_defs literal_defs evaluator_simps
          known_comparison_def py_compare_def py_eq_def)
  show ?thesis using true_iff short checked evaluated by blast
qed

theorem C3_comparison_chain_witness:
  "number ''1'' 5 = Tree ''value'' [Token ''NUMBER'' ''1'' (1, 5, 1, 6)]
   \<and> ''value'' \<noteq> ''compare_expression''
   \<and> eval_expr 0 1 one_one_one start_state = Inr (VBool True, start_state)
   \<and> (\<exists>s1. eval_expr 0 1 (compare_expression (number ''1'' 1) (equals 3) (number ''1'' 5)) start_state
               = Inr (VBool True, s1)
            \<and> eval_expr 0 1 (compare_expression (number ''1'' 5) (equals 7) (number ''1'' 9)) s1
               = Inr (VBool True, start_state))"
proof -
  have h1: "number ''1'' 5 = Tree ''value'' [Token ''NUMBER'' ''1'' (1, 5, 1, 6)]"
    by (simp add: number_def)
  have h2: "''value'' \<noteq> ''compare_expression''" by simp
  have chain: "eval_expr 0 1 one_one_one start_state = Inr (VBool True, start_state)"
    by (simp add: one_one_one_def sample_defs literal_defs evaluator_simps
          known_comparison_def py_compare_def py_eq_def)
  from C3_comparison_chain [OF h1 h2, of 0 1 "number ''1'' 1" "equals 3" "equals 7"
      "number ''1'' 9" start_state start_state]
  have "\<exists>s1. eval_expr 0 1 (compare_expression (number ''1'' 1) (equals 3) (number ''1'' 5)) start_state
               = Inr (VBool True, s1)
            \<and> eval_expr 0 1 (compare_expression (number ''1'' 5) (equals 7) (number ''1'' 9)) s1
               = Inr (VBool True, start_state)"
    using chain unfolding one_one_one_def by blast
  then show ?thesis using h1 h2 chain by blast
qed

subsection \<open>If-else commands\<close>

text \<open>
  C2. For an if-else command the checker should check both branches and report an exit
  point only if both branches have one. \<open>type_check_command\<close> checks the true branch
  twice and the false branch never. In
  \<open>fun f() -> int { if true { return 1 } else { print x }; print 2 }\<close> the false branch
  has no exit point and uses an undefined name: the code reports no error at all, and it
  takes the if-else for an exit point, as the warning about unreachable code at the
  if-else shows.
\<close>

theorem C2_if_else_checks_true_branch_twice:
  "\<exists>s. type_check if_else_program global_scope = Inr ((0, 1), s)
       \<and> errors s = []
       \<and> warnings s = [TypeCheckError if_else_command UnreachableCode]"
  by (simp add: if_else_program_def if_else_command_def function_def_def sample_defs
        literal_defs checker_simps checker_defs)

subsection \<open>The driver\<close>

text \<open>
  C5 as stated fails: the line with the counts is printed only when the checker found an
  error. For \<open>print 1\<close> the driver prints the (empty) diagnostics and the value, and
  nothing after them.
\<close>

theorem C5_no_trailing_line_without_errors:
  "\<exists>s. driver 0 print_one_program = Inr s
       \<and> stdout s = [PrintDiagnostics [] [], PrintValue (VInt 1)]"
  by (simp add: print_one_program_def sample_defs literal_defs checker_simps checker_defs
        evaluator_simps evaluator_defs)

text \<open>
  C5, amended. When the checker completes, the driver runs the evaluator on the state
  the checker leaves, whatever the number of errors \<open>ec\<close>: the driver's result is the
  evaluator's, an exception of the evaluator included. When the evaluator completes
  too, the driver prints the line with the counts after everything else exactly when
  \<open>ec\<close> is positive; with no error nothing is added.
\<close>

theorem C5_driver:
  "(\<forall>ec wc s1. type_check tree global_scope = Inr ((ec, wc), s1) \<longrightarrow>
       ec = length (errors s1) \<and> wc = length (warnings s1)
       \<and> driver n tree =
           (case parse_tree n tree s1 of
              Inl e \<Rightarrow> Inl e
            | Inr s2 \<Rightarrow> Inr (s2\<lparr>stdout := stdout s2 @ (if 0 < ec then [PrintRanWith ec wc] else [])\<rparr>)))
   \<and> (\<forall>s. driver n tree = Inr s \<longrightarrow>
         (\<exists>ec wc s1 s2. type_check tree global_scope = Inr ((ec, wc), s1)
            \<and> parse_tree n tree s1 = Inr s2
            \<and> stdout s = stdout s2 @ (if 0 < ec then [PrintRanWith ec wc] else [])))"
proof (intro conjI allI impI)
  fix ec wc s1
  assume tc: "type_check tree global_scope = Inr ((ec, wc), s1)"
  show "ec = length (errors s1)" and "wc = length (warnings s1)"
    using tc by (auto simp: type_check_def new_scope_def print_out_def
                      split: node.split_asm sum.split_asm if_split_asm)
  show "driver n tree =
           (case parse_tree n tree s1 of
              Inl e \<Rightarrow> Inl e
            | Inr s2 \<Rightarrow> Inr (s2\<lparr>stdout := stdout s2 @ (if 0 < ec then [PrintRanWith ec wc] else [])\<rparr>))"
    using tc by (simp add: driver_def print_out_def split: sum.split)
next
  fix s
  assume d: "driver n tree = Inr s"
  then obtain ec wc s1 where tc: "type_check tree global_scope = Inr ((ec, wc), s1)"
    by (auto simp: driver_def split: sum.split_asm)
  with d obtain s2 where pt: "parse_tree n tree s1 = Inr s2"
    by (auto simp: driver_def split: sum.split_asm)
  have "stdout s = stdout s2 @ (if 0 < ec then [PrintRanWith ec wc] else [])"
    using d tc pt by (auto simp: driver_def print_out_def)
  with tc pt show "\<exists>ec wc s1 s2. type_check tree global_scope = Inr ((ec, wc), s1)
            \<and> parse_tree n tree s1 = Inr s2
            \<and> stdout s = stdout s2 @ (if 0 < ec then [PrintRanWith ec wc] else [])"
    by blast
qed

theorem C5_driver_witness:
  "\<exists>s ec wc s1 s2.
      driver 0 return_at_top_program = Inr s
      \<and> type_check return_at_top_program global_scope = Inr ((ec, wc), s1)
      \<and> parse_tree 0 return_at_top_program s1 = Inr s2
      \<and> stdout s = stdout s2 @ (if 0 < ec then [PrintRanWith ec wc] else [])
      \<and> stdout s =
          [PrintDiagnostics []
             [TypeCheckError (Tree ''return'' [number ''1'' 8]) ReturnOutsideFunction],
           PrintRanWith 1 0]"
proof -
  have "\<exists>s. driver 0 return_at_top_program = Inr s
      \<and> stdout s =
          [PrintDiagnostics []
             [TypeCheckError (Tree ''return'' [number ''1'' 8]) ReturnOutsideFunction],
           PrintRanWith 1 0]"
    by (simp add: return_at_top_program_def sample_defs literal_defs checker_simps
          checker_defs evaluator_simps evaluator_defs)
  then obtain s where s: "driver 0 return_at_top_program = Inr s"
      "stdout s =
          [PrintDiagnostics []
             [TypeCheckError (Tree ''return'' [number ''1'' 8]) ReturnOutsideFunction],
           PrintRanWith 1 0]"
    by blast
  from C5_driver [of return_at_top_program 0] s(1)
  obtain ec wc s1 s2 where
    "type_check return_at_top_program global_scope = Inr ((ec, wc), s1)"
    "parse_tree 0 return_at_top_program s1 = Inr s2"
    "stdout s = stdout s2 @ (if 0 < ec then [PrintRanWith ec wc] else [])"
    by blast
  with s show ?thesis by blast
qed

subsection \<open>Calls of user functions\<close>


text \<open>
  C9. A call of a user function without a default return whose body runs to its end
  without a \<open>return\<close> (\<open>eval_commands\<close> gives \<open>(False, value)\<close>), with enough
  arguments, does not return a value: \<open>Function.run\<close> passes None to \<open>eval_expr\<close>, which
  raises AttributeError, None having no \<open>data\<close>.
\<close>

theorem C9_no_default_return:
  assumes "length params \<le> length arguments"
    and "new_scope sc (Some (Function sc params rt (Tree bd body) None)) s = (scope, s1)"
    and "eval_commands n scope body (bind_arguments scope arguments params s1)
           = Inr ((False, value), s2)"
  shows "run (Suc n) (Function sc params rt (Tree bd body) None) arguments s
           = Inl AttributeError"
  using assms by simp

theorem C9_no_default_return_witness:
  "length ([] :: (string \<times> string) list) \<le> length ([] :: val list)
   \<and> new_scope 1 (Some print_one_function) start_state
       = (2, snd (new_scope 1 (Some print_one_function) start_state))
   \<and> eval_commands 0 2 [instruction (Tree ''print'' [number ''1'' 26])]
         (bind_arguments 2 [] [] (snd (new_scope 1 (Some print_one_function) start_state)))
       = Inr ((False, VNone),
              print_out (PrintValue (VInt 1))
                (snd (new_scope 1 (Some print_one_function) start_state)))
   \<and> run (Suc 0) print_one_function [] start_state = Inl AttributeError"
proof -
  have h1: "length ([] :: (string \<times> string) list) \<le> length ([] :: val list)" by simp
  have h2: "new_scope 1
              (Some (Function 1 [] ''int''
                 (Tree ''code_block'' [instruction (Tree ''print'' [number ''1'' 26])]) None))
              start_state
            = (2, snd (new_scope 1 (Some print_one_function) start_state))"
    by (simp add: new_scope_def start_state_def global_scope_def print_one_function_def)
  have h3: "eval_commands 0 2 [instruction (Tree ''print'' [number ''1'' 26])]
         (bind_arguments 2 [] [] (snd (new_scope 1 (Some print_one_function) start_state)))
       = Inr ((False, VNone),
              print_out (PrintValue (VInt 1))
                (snd (new_scope 1 (Some print_one_function) start_state)))"
    by (simp add: sample_defs literal_defs evaluator_simps)
  from C9_no_default_return [OF h1 h2 h3]
  have "run (Suc 0) print_one_function [] start_state = Inl AttributeError"
    by (simp add: print_one_function_def)
  with h1 h2 h3 show ?thesis by (simp add: print_one_function_def)
qed

text \<open>Binding the arguments of a call changes nothing but the variables of the scope of
  the call: the names bound are those of the parameters that have an argument, and a
  parameter whose name is not used again gets its own argument, with its declared type.\<close>

lemma set_variable_length [simp]: "length (scopes (set_variable sc name v s)) = length (scopes s)"
  by (simp add: set_variable_def)


lemma bind_arguments_length [simp]:
  "length (scopes (bind_arguments scope vs params s)) = length (scopes s)"
  by (induction scope vs params s rule: bind_arguments.induct) simp_all








subsection \<open>Unknown operands\<close>

text \<open>
  C7. An operator expression is a tree that is none of \<open>ifelse_expr\<close>,
  \<open>function_callback\<close>, \<open>imported_command\<close>, \<open>value\<close> and has an operator token of
  \<open>unary_operation_types\<close> before its operand, or one of \<open>binary_operation_types\<close> between
  its two operands. If the check of an operand gives unknown (None), the check of the
  expression gives unknown and leaves the state the checks of the operands leave:
  nothing is added to the errors or warnings for the expression itself.
\<close>

theorem C7_unknown_operand:
  "(d \<notin> set [''ifelse_expr'', ''function_callback'', ''imported_command'', ''value'']
      \<and> map_of unary_operation_types op \<noteq> None
      \<and> type_check_expr self operand s = Inr (None, s1)
    \<longrightarrow> type_check_expr self (Tree d [Token op ov p, operand]) s = Inr (None, s1))
   \<and> (d \<notin> set [''ifelse_expr'', ''function_callback'', ''imported_command'', ''value'']
      \<and> map_of binary_operation_types op \<noteq> None
      \<and> type_check_expr self left s = Inr (lt, s1)
      \<and> type_check_expr self right s1 = Inr (rt, s2)
      \<and> (lt = None \<or> rt = None)
    \<longrightarrow> type_check_expr self (Tree d [left, Token op ov p, right]) s = Inr (None, s2))"
proof (intro conjI impI)
  assume "d \<notin> set [''ifelse_expr'', ''function_callback'', ''imported_command'', ''value'']
      \<and> map_of unary_operation_types op \<noteq> None
      \<and> type_check_expr self operand s = Inr (None, s1)"
  then show "type_check_expr self (Tree d [Token op ov p, operand]) s = Inr (None, s1)"
    by (subst type_check_expr.simps(2)) (clarsimp split: option.split)
next
  assume a: "d \<notin> set [''ifelse_expr'', ''function_callback'', ''imported_command'', ''value'']
      \<and> map_of binary_operation_types op \<noteq> None
      \<and> type_check_expr self left s = Inr (lt, s1)
      \<and> type_check_expr self right s1 = Inr (rt, s2)
      \<and> (lt = None \<or> rt = None)"
  then have "lt = None \<or> rt = None" by simp
  then show "type_check_expr self (Tree d [left, Token op ov p, right]) s = Inr (None, s2)"
  proof
    assume "lt = None"
    with a show ?thesis
      by (subst type_check_expr.simps(2)) (clarsimp split: option.split)
  next
    assume "rt = None"
    with a show ?thesis
      by (subst type_check_expr.simps(2)) (clarsimp split: option.split)
  qed
qed

theorem C7_unknown_operand_witness:
  "''unary_expression'' \<notin> set [''ifelse_expr'', ''function_callback'', ''imported_command'', ''value'']
   \<and> map_of unary_operation_types ''NEGATE'' \<noteq> None
   \<and> type_check_expr 1 (name_ref ''x'' 2) start_state
       = Inr (None, add_error (Token ''NAME'' ''x'' (1, 2, 1, 3)) (NotYetDefined ''x'') start_state)
   \<and> type_check_expr 1
         (Tree ''unary_expression'' [Token ''NEGATE'' ''-'' (1, 1, 1, 2), name_ref ''x'' 2])
         start_state
       = Inr (None, add_error (Token ''NAME'' ''x'' (1, 2, 1, 3)) (NotYetDefined ''x'') start_state)
   \<and> ''sum_expression'' \<notin> set [''ifelse_expr'', ''function_callback'', ''imported_command'', ''value'']
   \<and> map_of binary_operation_types ''ADD'' \<noteq> None
   \<and> type_check_expr 1 (number ''1'' 6)
         (add_error (Token ''NAME'' ''x'' (1, 2, 1, 3)) (NotYetDefined ''x'') start_state)
       = Inr (Some (TName ''int''),
              add_error (Token ''NAME'' ''x'' (1, 2, 1, 3)) (NotYetDefined ''x'') start_state)
   \<and> type_check_expr 1
         (Tree ''sum_expression'' [name_ref ''x'' 2, Token ''ADD'' ''+'' (1, 4, 1, 5), number ''1'' 6])
         start_state
       = Inr (None, add_error (Token ''NAME'' ''x'' (1, 2, 1, 3)) (NotYetDefined ''x'') start_state)"
proof -
  let ?s1 = "add_error (Token ''NAME'' ''x'' (1, 2, 1, 3)) (NotYetDefined ''x'') start_state"
  have u1: "''unary_expression'' \<notin> set [''ifelse_expr'', ''function_callback'', ''imported_command'', ''value'']"
    by simp
  have u2: "map_of unary_operation_types ''NEGATE'' \<noteq> None"
    by (simp add: unary_operation_types_def)
  have x: "type_check_expr 1 (name_ref ''x'' 2) start_state = Inr (None, ?s1)"
    by (simp add: sample_defs literal_defs checker_simps start_state_def global_scope_def
          new_scope_def)
  have b1: "''sum_expression'' \<notin> set [''ifelse_expr'', ''function_callback'', ''imported_command'', ''value'']"
    by simp
  have b2: "map_of binary_operation_types ''ADD'' \<noteq> None"
    by (simp add: binary_operation_types_def)
  have one: "type_check_expr 1 (number ''1'' 6) ?s1 = Inr (Some (TName ''int''), ?s1)"
    by (simp add: sample_defs literal_defs checker_simps)
  from C7_unknown_operand [of "''unary_expression''" "''NEGATE''" 1 "name_ref ''x'' 2"
      start_state ?s1 "''-''" "(1, 1, 1, 2)"] u1 u2 x
  have u: "type_check_expr 1
         (Tree ''unary_expression'' [Token ''NEGATE'' ''-'' (1, 1, 1, 2), name_ref ''x'' 2])
         start_state = Inr (None, ?s1)"
    by blast
  from C7_unknown_operand [of "''sum_expression''" "''ADD''" 1 _ start_state ?s1 "''+''"
      "(1, 4, 1, 5)" "name_ref ''x'' 2" None "number ''1'' 6" "Some (TName ''int'')" ?s1]
    b1 b2 x one
  have b: "type_check_expr 1
         (Tree ''sum_expression'' [name_ref ''x'' 2, Token ''ADD'' ''+'' (1, 4, 1, 5), number ''1'' 6])
         start_state = Inr (None, ?s1)"
    by blast
  from u1 u2 x u b1 b2 one b show ?thesis by blast
qed

subsection \<open>Loops\<close>

text \<open>
  The loop as the property describes it, with what the code adds: iteration \<open>k\<close> comes
  after the iterations \<open>0, ..., k - 1\<close>, runs the commands of the body in a new child
  scope of \<open>self\<close> in which the induction variable is bound to \<open>k\<close>, and is not reached
  if an earlier iteration exited (a \<open>return\<close> in the body) or raised.
\<close>

fun loop_iterations ::
  "nat \<Rightarrow> nat \<Rightarrow> string \<Rightarrow> string \<Rightarrow> node list \<Rightarrow> nat \<Rightarrow> state \<Rightarrow> exn + ((bool \<times> val) \<times> state)"
where
  "loop_iterations n self name ty body 0 s = Inr ((False, VNone), s)"
| "loop_iterations n self name ty body (Suc k) s =
    (case loop_iterations n self name ty body k s of
       Inl e \<Rightarrow> Inl e
     | Inr ((exit, value), s1) \<Rightarrow>
         if exit then Inr ((True, value), s1)
         else
           (case new_scope self None s1 of
              (scope, s2) \<Rightarrow>
                (case eval_commands n scope body
                        (set_variable scope name (Variable (TName ty) (VInt (int k))) s2) of
                   Inl e \<Rightarrow> Inl e
                 | Inr ((exit, value), s3) \<Rightarrow>
                     if exit then Inr ((True, value), s3) else Inr ((False, VNone), s3))))"

lemma eval_loop_append:
  "eval_loop n self name ty code (xs @ ys) s =
     (case eval_loop n self name ty code xs s of
        Inl e \<Rightarrow> Inl e
      | Inr ((exit, value), s1) \<Rightarrow>
          if exit then Inr ((True, value), s1)
          else eval_loop n self name ty code ys s1)"
proof (induction xs arbitrary: s)
  case Nil
  show ?case by simp
next
  case (Cons i xs)
  show ?case
    using Cons.IH
    by (cases code)
       (auto simp: new_scope_def split: sum.splits prod.splits)
qed

lemma eval_loop_iterations:
  "eval_loop n self name ty (Tree bd body) (map int [0..<k]) s
     = loop_iterations n self name ty body k s"
proof (induction k)
  case 0
  show ?case by simp
next
  case (Suc k)
  show ?case
    by (auto simp: eval_loop_append Suc.IH new_scope_def split: sum.splits prod.splits)
qed

text \<open>
  C6 as stated fails: a body that returns ends the loop. \<open>for 3 times as (i: int)
  { print i; return i }\<close> runs its body once, prints \<open>0\<close> only, and exits with the
  value 0.
\<close>

theorem C6_loop_stops_at_return:
  "\<exists>s'. eval_command 0 1 (instruction returning_loop) start_state = Inr ((True, VInt 0), s')
        \<and> stdout s' = [PrintValue (VInt 0)]"
  by (simp add: returning_loop_def for_loop_def sample_defs literal_defs evaluator_simps
        new_scope_def set_variable_def start_state_def global_scope_def print_out_def
        get_variable_err_def upt_rec)

text \<open>
  C6, amended. For a loop whose count is a token that \<open>int\<close> reads as \<open>k\<close> and whose
  induction variable is declared \<open>int\<close>, the evaluator runs the iterations
  \<open>0, 1, ..., k - 1\<close> in this order, each in a new child scope with the induction variable
  bound to the iteration's number, and stops at the first iteration in which a command
  exits or raises; if none does, the body is run exactly \<open>k\<close> times (no time for a
  negative \<open>k\<close>). In particular \<open>for 5 times as (i: int) { print i }\<close> prints 0, 1, 2, 3, 4.
\<close>

theorem C6_loop:
  assumes "py_int text = Inr k"
  shows "eval_command n self
           (instruction (Tree ''loop''
              [Token ct text cp, Tree vd [Token nt name np, Token tt ''int'' tp], Tree bd body])) s
         = loop_iterations n self name ''int'' body (nat k) s
       \<and> (\<exists>s'. eval_command n 1 (instruction five_times) start_state = Inr ((False, VNone), s')
               \<and> stdout s' = [PrintValue (VInt 0), PrintValue (VInt 1), PrintValue (VInt 2),
                               PrintValue (VInt 3), PrintValue (VInt 4)])"
proof
  show "eval_command n self
           (instruction (Tree ''loop''
              [Token ct text cp, Tree vd [Token nt name np, Token tt ''int'' tp], Tree bd body])) s
         = loop_iterations n self name ''int'' body (nat k) s"
    using assms unfolding instruction_def
    by (subst eval_command.simps(4)) (simp add: eval_loop_iterations)
  show "\<exists>s'. eval_command n 1 (instruction five_times) start_state = Inr ((False, VNone), s')
               \<and> stdout s' = [PrintValue (VInt 0), PrintValue (VInt 1), PrintValue (VInt 2),
                               PrintValue (VInt 3), PrintValue (VInt 4)]"
    by (simp add: five_times_def for_loop_def sample_defs literal_defs evaluator_simps
          new_scope_def set_variable_def start_state_def global_scope_def print_out_def
          get_variable_err_def upt_rec)
qed

theorem C6_loop_witness:
  "py_int ''5'' = Inr 5
   \<and> eval_command 0 1 (instruction five_times) start_state
       = loop_iterations 0 1 ''i'' ''int'' [instruction (Tree ''print'' [name_ref ''i'' 33])]
           (nat 5) start_state"
proof -
  have h: "py_int ''5'' = Inr 5"
    by (simp add: py_int_def int_unmodelled_char_def is_digit_def)
  from C6_loop [OF h, of 0 1 "''NUMBER''" "(1, 5, 1, 6)" "''name_type''" "''NAME''" "''i''"
      "(1, 17, 1, 18)" "''NAME''" "(1, 20, 1, 23)" "''code_block''"
      "[instruction (Tree ''print'' [name_ref ''i'' 33])]" start_state]
  have "eval_command 0 1 (instruction five_times) start_state
       = loop_iterations 0 1 ''i'' ''int'' [instruction (Tree ''print'' [name_ref ''i'' 33])]
           (nat 5) start_state"
    by (simp add: five_times_def for_loop_def)
  with h show ?thesis by blast
qed

subsection \<open>Unreachable code\<close>

text \<open>Once the loop over a function body has an exit point it keeps it, and once it has
  warned it only checks the remaining commands.\<close>

lemma check_function_body_keeps_exit:
  "check_function_body scope cmds (Some ep) w s = Inr (r, s') \<Longrightarrow> r = Some ep"
proof (induction cmds arbitrary: w s)
  case Nil
  then show ?case by simp
next
  case (Cons c cmds)
  then show ?case
    by (auto split: sum.splits prod.splits if_splits)
qed

lemma check_function_body_warned:
  "check_function_body scope cmds (Some ep) True s =
     (case type_check_commands scope cmds s of
        Inl e \<Rightarrow> Inl e
      | Inr s' \<Rightarrow> Inr (Some ep, s'))"
  by (induction cmds arbitrary: s) (auto split: sum.splits prod.splits)

lemma check_function_body_no_exit_append:
  "check_function_body scope pre None False s = Inr (None, s1) \<Longrightarrow>
   check_function_body scope (pre @ rest) None False s
     = check_function_body scope rest None False s1"
proof (induction pre arbitrary: s)
  case Nil
  then show ?case by simp
next
  case (Cons c pre)
  then show ?case
    by (auto split: sum.splits prod.splits if_splits option.splits
          dest: check_function_body_keeps_exit)
qed

text \<open>The exit point of a command: a \<open>return\<close> hands up itself, an if-else itself, a
  loop the exit point of the first command of its body that has one; no other command
  has an exit point. So an exit point is a \<open>return\<close> or an if-else command, the command
  itself or one nested in it.\<close>

lemma subnodes_self: "c \<in> set (subnodes c)"
  by (cases c) simp_all

lemma subnodes_child:
  "child \<in> set cs \<Longrightarrow> x \<in> set (subnodes child) \<Longrightarrow> x \<in> set (subnodes (Tree d cs))"
  by auto

lemma check_loop_body_keeps_exit:
  "check_loop_body scope body (Some e0) s = Inr (r, s') \<Longrightarrow> r = Some e0"
  by (induction body arbitrary: s) (auto split: sum.splits prod.splits)

lemma check_loop_body_first:
  "check_loop_body scope body None s = Inr (Some ep, s') \<Longrightarrow>
   \<exists>pre child post st st'.
      body = pre @ child # post
      \<and> check_loop_body scope pre None s = Inr (None, st)
      \<and> type_check_command scope child st = Inr (Some ep, st')"
proof (induction body arbitrary: s)
  case Nil
  then show ?case by simp
next
  case (Cons c body)
  from Cons.prems obtain exit s1 where c: "type_check_command scope c s = Inr (exit, s1)"
    and rest: "check_loop_body scope body exit s1 = Inr (Some ep, s')"
    by (auto split: sum.splits prod.splits)
  show ?case
  proof (cases exit)
    case None
    with rest Cons.IH obtain pre child post st st' where
      "body = pre @ child # post"
      "check_loop_body scope pre None s1 = Inr (None, st)"
      "type_check_command scope child st = Inr (Some ep, st')"
      by blast
    with c None have "c # body = (c # pre) @ child # post
      \<and> check_loop_body scope (c # pre) None s = Inr (None, st)
      \<and> type_check_command scope child st = Inr (Some ep, st')"
      by simp
    then show ?thesis by blast
  next
    case (Some e0)
    with rest have "ep = e0" using check_loop_body_keeps_exit by blast
    with c Some have "c # body = [] @ c # body
      \<and> check_loop_body scope [] None s = Inr (None, s)
      \<and> type_check_command scope c s = Inr (Some ep, s1)"
      by simp
    then show ?thesis by blast
  qed
qed

lemma exit_point_shape:
  "type_check_command scope c0 s = Inr (Some ep, s') \<Longrightarrow>
   \<exists>cd ccs rest. c0 = Tree ''instruction'' (Tree cd ccs # rest)"
proof (cases c0)
  case (Token t v p)
  assume "type_check_command scope c0 s = Inr (Some ep, s')"
  with Token show ?thesis by simp
next
  case (Tree d cs)
  assume a: "type_check_command scope c0 s = Inr (Some ep, s')"
  show ?thesis
  proof (cases cs)
    case Nil
    with a Tree show ?thesis by (simp split: if_split_asm)
  next
    case (Cons c cs')
    show ?thesis
    proof (cases c)
      case (Token t v p)
      with a Tree Cons show ?thesis by (simp split: if_split_asm)
    next
      case (Tree cd ccs)
      have "d = ''instruction''"
        using a \<open>c0 = Tree d cs\<close> Cons Tree
        by (cases "d = ''instruction''") (simp_all add: type_check_command.simps(4))
      with \<open>c0 = Tree d cs\<close> Cons Tree show ?thesis by simp
    qed
  qed
qed

lemma exit_point_commands:
  assumes a: "type_check_command scope (Tree ''instruction'' (Tree cd ccs # rest)) s
                = Inr (Some ep, s')"
  shows "(cd = ''return'' \<and> ep = Tree ''return'' ccs)
       \<or> (cd = ''ifelse'' \<and> ep = Tree ''ifelse'' ccs)
       \<or> (cd = ''loop''
            \<and> (\<exists>iterable var bd body lscope st.
                  ccs = [iterable, var, Tree bd body]
                  \<and> check_loop_body lscope body None st = Inr (Some ep, s')))"
proof -
  consider "cd = ''imp''" | "cd = ''function_def''" | "cd = ''loop''" | "cd = ''print''"
    | "cd = ''return''" | "cd = ''declare''" | "cd = ''if''" | "cd = ''ifelse''"
    | "cd \<notin> set [''imp'', ''function_def'', ''loop'', ''print'', ''return'', ''declare'',
                   ''if'', ''ifelse'']"
    by fastforce
  then show ?thesis
  proof cases
    case 1
    with a show ?thesis by (simp add: type_check_command.simps(4))
  next
    case 2
    with a show ?thesis
      by (simp add: type_check_command.simps(4)
            split: sum.split_asm prod.split_asm node.split_asm option.split_asm if_split_asm)
  next
    case 3
    with a show ?thesis
      apply (simp add: type_check_command.simps(4))
      apply (clarsimp split: list.split_asm node.split_asm sum.split_asm prod.split_asm
               simp: Let_def)
      apply blast
      done
  next
    case 4
    with a show ?thesis
      by (simp add: type_check_command.simps(4)
            split: list.split_asm sum.split_asm prod.split_asm)
  next
    case 5
    with a show ?thesis
      by (clarsimp simp: type_check_command.simps(4)
            split: list.split_asm sum.split_asm prod.split_asm)
  next
    case 6
    with a show ?thesis
      by (simp add: type_check_command.simps(4)
            split: list.split_asm node.split_asm sum.split_asm prod.split_asm)
  next
    case 7
    with a show ?thesis
      by (simp add: type_check_command.simps(4)
            split: list.split_asm sum.split_asm prod.split_asm)
  next
    case 8
    with a show ?thesis
      by (clarsimp simp: type_check_command.simps(4)
            split: list.split_asm sum.split_asm prod.split_asm if_split_asm)
  next
    case 9
    with a show ?thesis
      by (simp add: type_check_command.simps(4) split: sum.split_asm prod.split_asm)
  qed
qed

lemma exit_point_nested:
  "type_check_command scope c s = Inr (Some ep, s') \<Longrightarrow>
   (\<exists>ccs. ep = Tree ''return'' ccs \<or> ep = Tree ''ifelse'' ccs) \<and> ep \<in> set (subnodes c)"
proof (induction c arbitrary: scope s s' rule: measure_induct_rule [where f = size])
  case (less c)
  from exit_point_shape [OF less.prems] obtain cd ccs rest where
    c: "c = Tree ''instruction'' (Tree cd ccs # rest)"
    by (elim exE)
  have a: "type_check_command scope (Tree ''instruction'' (Tree cd ccs # rest)) s
             = Inr (Some ep, s')"
    using less.prems unfolding c .
  have inner: "\<And>x. x \<in> set (subnodes (Tree cd ccs)) \<Longrightarrow> x \<in> set (subnodes c)"
    unfolding c by (rule subnodes_child [where child = "Tree cd ccs"]) simp_all
  have self: "Tree cd ccs \<in> set (subnodes c)"
    by (rule inner) (rule subnodes_self)
  from exit_point_commands [OF a] show ?case
  proof (elim disjE conjE exE)
    assume "cd = ''return''" "ep = Tree ''return'' ccs"
    then have "ep = Tree cd ccs" by simp
    with self \<open>ep = Tree ''return'' ccs\<close> show ?thesis by (intro conjI exI disjI1) simp_all
  next
    assume "cd = ''ifelse''" "ep = Tree ''ifelse'' ccs"
    then have "ep = Tree cd ccs" by simp
    with self \<open>ep = Tree ''ifelse'' ccs\<close> show ?thesis by (intro conjI exI disjI2) simp_all
  next
    fix iterable var bd body lscope st
    assume cd: "cd = ''loop''" and ccs: "ccs = [iterable, var, Tree bd body]"
      and lb: "check_loop_body lscope body None st = Inr (Some ep, s')"
    from check_loop_body_first [OF lb] obtain pre child post st1 st2 where
      body: "body = pre @ child # post"
      and child: "type_check_command lscope child st1 = Inr (Some ep, st2)"
      by (elim exE conjE)
    have "size child < size c"
      unfolding c ccs body by simp
    from less.IH [OF this child]
    have kind: "\<exists>ccs. ep = Tree ''return'' ccs \<or> ep = Tree ''ifelse'' ccs"
      and sub: "ep \<in> set (subnodes child)"
      by simp_all
    have "child \<in> set body" unfolding body by simp
    then have "ep \<in> set (subnodes (Tree bd body))"
      using sub by (rule subnodes_child)
    moreover have "Tree bd body \<in> set ccs" unfolding ccs by simp
    ultimately have "ep \<in> set (subnodes (Tree cd ccs))"
      by (rule subnodes_child [rotated])
    then have "ep \<in> set (subnodes c)" by (rule inner)
    with kind show ?thesis by (intro conjI)
  qed
qed

text \<open>
  C4 as stated fails in its last part: the warning is placed at the first exit point of
  the body, which need not be a \<open>return\<close> of the block. In
  \<open>fun h() -> int { if true { return 1 } else { return 2 }; return 3; print 4 }\<close> the
  command \<open>return 3\<close> is followed by another command; the one warning is at the if-else
  command.
\<close>

theorem C4_warning_at_if_else:
  "\<exists>st. type_check both_return_program global_scope = Inr ((0, 1), st)
        \<and> warnings st = [TypeCheckError both_return_command UnreachableCode]"
  by (simp add: both_return_program_def both_return_command_def function_def_def sample_defs
        literal_defs checker_simps checker_defs)

text \<open>
  C4, amended. \<open>check_function_body\<close> is the loop of \<open>type_check_command\<close> over the
  commands of a function body. Let \<open>c0\<close> be the first command of the body that hands up
  an exit point, \<open>ep\<close> (no command of \<open>pre\<close> hands one up), and let at least one command
  \<open>c\<close> follow it. Then the loop adds exactly one warning of its own, at \<open>ep\<close>: the body is
  checked as \<open>pre\<close>, \<open>c0\<close> and \<open>c\<close> are, then the warning is added, then the commands
  after \<open>c\<close> are checked by \<open>type_check_commands\<close>, which adds nothing for the body.
  The command \<open>c0\<close> is a \<open>return\<close>, an if-else or a loop. For a \<open>return\<close> and for an
  if-else \<open>ep\<close> is the command itself; for a loop \<open>ep\<close> is not the loop but the exit
  point handed up by the first command of the loop's body that hands one up. In every
  case \<open>ep\<close> is a \<open>return\<close> or an if-else command, \<open>c0\<close> or one nested in it. In
  particular \<open>fun g() -> int { return 1; print 2 }\<close> gets one warning, at \<open>return 1\<close>,
  and \<open>fun g() -> int { for 2 times as (i: int) { return 1 }; print 2 }\<close> gets one
  warning, at the \<open>return 1\<close> inside the loop.
\<close>

theorem C4_unreachable_code:
  assumes "check_function_body scope pre None False s = Inr (None, s1)"
    and "type_check_command scope c0 s1 = Inr (Some ep, s2)"
    and "type_check_command scope c s2 = Inr (x, s3)"
    and "type_check_commands scope post (add_warning ep UnreachableCode s3) = Inr s4"
  shows "check_function_body scope (pre @ c0 # c # post) None False s = Inr (Some ep, s4)
         \<and> (\<exists>cd ccs rest. c0 = Tree ''instruction'' (Tree cd ccs # rest)
               \<and> ((cd = ''return'' \<and> ep = Tree ''return'' ccs)
                  \<or> (cd = ''ifelse'' \<and> ep = Tree ''ifelse'' ccs)
                  \<or> (cd = ''loop''
                      \<and> (\<exists>iterable var bd body lscope st pre' child post' st1 st2.
                            ccs = [iterable, var, Tree bd body]
                            \<and> body = pre' @ child # post'
                            \<and> check_loop_body lscope pre' None st = Inr (None, st1)
                            \<and> type_check_command lscope child st1 = Inr (Some ep, st2)))))
         \<and> (\<exists>ccs. ep = Tree ''return'' ccs \<or> ep = Tree ''ifelse'' ccs)
         \<and> ep \<in> set (subnodes c0)
         \<and> (\<exists>st. type_check unreachable_program global_scope = Inr ((0, 1), st)
                 \<and> warnings st
                     = [TypeCheckError (Tree ''return'' [number ''1'' 26]) UnreachableCode])
         \<and> (\<exists>st. type_check loop_return_program global_scope = Inr ((0, 1), st)
                 \<and> warnings st
                     = [TypeCheckError (Tree ''return'' [number ''1'' 45]) UnreachableCode])"
proof (intro conjI)
  show "check_function_body scope (pre @ c0 # c # post) None False s = Inr (Some ep, s4)"
    using assms
    by (simp add: check_function_body_no_exit_append check_function_body_warned)
  show "\<exists>cd ccs rest. c0 = Tree ''instruction'' (Tree cd ccs # rest)
               \<and> ((cd = ''return'' \<and> ep = Tree ''return'' ccs)
                  \<or> (cd = ''ifelse'' \<and> ep = Tree ''ifelse'' ccs)
                  \<or> (cd = ''loop''
                      \<and> (\<exists>iterable var bd body lscope st pre' child post' st1 st2.
                            ccs = [iterable, var, Tree bd body]
                            \<and> body = pre' @ child # post'
                            \<and> check_loop_body lscope pre' None st = Inr (None, st1)
                            \<and> type_check_command lscope child st1 = Inr (Some ep, st2))))"
  proof -
    from exit_point_shape [OF assms(2)] obtain cd ccs rest where
      c0: "c0 = Tree ''instruction'' (Tree cd ccs # rest)"
      by (elim exE)
    have a: "type_check_command scope (Tree ''instruction'' (Tree cd ccs # rest)) s1
               = Inr (Some ep, s2)"
      using assms(2) unfolding c0 .
    from exit_point_commands [OF a]
    have "(cd = ''return'' \<and> ep = Tree ''return'' ccs)
          \<or> (cd = ''ifelse'' \<and> ep = Tree ''ifelse'' ccs)
          \<or> (cd = ''loop''
              \<and> (\<exists>iterable var bd body lscope st pre' child post' st1 st2.
                    ccs = [iterable, var, Tree bd body]
                    \<and> body = pre' @ child # post'
                    \<and> check_loop_body lscope pre' None st = Inr (None, st1)
                    \<and> type_check_command lscope child st1 = Inr (Some ep, st2)))"
    proof (elim disjE conjE exE)
      assume "cd = ''return''" "ep = Tree ''return'' ccs"
      then show ?thesis by (intro disjI1 conjI)
    next
      assume "cd = ''ifelse''" "ep = Tree ''ifelse'' ccs"
      then show ?thesis by (intro disjI2 disjI1 conjI)
    next
      fix iterable var bd body lscope st
      assume cd: "cd = ''loop''" and ccs: "ccs = [iterable, var, Tree bd body]"
        and lb: "check_loop_body lscope body None st = Inr (Some ep, s2)"
      from check_loop_body_first [OF lb] obtain pre' child post' st1 st2 where
        "body = pre' @ child # post'"
        "check_loop_body lscope pre' None st = Inr (None, st1)"
        "type_check_command lscope child st1 = Inr (Some ep, st2)"
        by (elim exE conjE)
      with cd ccs show ?thesis by (intro disjI2 conjI exI)
    qed
    with c0 show ?thesis by (intro exI conjI)
  qed
  show "\<exists>ccs. ep = Tree ''return'' ccs \<or> ep = Tree ''ifelse'' ccs"
    using exit_point_nested [OF assms(2)] by (elim conjE)
  show "ep \<in> set (subnodes c0)"
    using exit_point_nested [OF assms(2)] by (elim conjE)
  show "\<exists>st. type_check unreachable_program global_scope = Inr ((0, 1), st)
                 \<and> warnings st
                     = [TypeCheckError (Tree ''return'' [number ''1'' 26]) UnreachableCode]"
    by (simp add: unreachable_program_def function_def_def sample_defs literal_defs
          checker_simps checker_defs)
  show "\<exists>st. type_check loop_return_program global_scope = Inr ((0, 1), st)
                 \<and> warnings st
                     = [TypeCheckError (Tree ''return'' [number ''1'' 45]) UnreachableCode]"
    by (simp add: loop_return_program_def function_def_def for_loop_def sample_defs
          literal_defs checker_simps checker_defs)
qed

theorem C4_unreachable_code_witness:
  "check_function_body 1 [] None False start_state = Inr (None, start_state)
   \<and> type_check_command 1 (instruction (Tree ''return'' [number ''1'' 26])) start_state
       = Inr (Some (Tree ''return'' [number ''1'' 26]),
              add_error (Tree ''return'' [number ''1'' 26]) ReturnOutsideFunction start_state)
   \<and> type_check_command 1 (instruction (Tree ''print'' [number ''2'' 35]))
         (add_error (Tree ''return'' [number ''1'' 26]) ReturnOutsideFunction start_state)
       = Inr (None, add_error (Tree ''return'' [number ''1'' 26]) ReturnOutsideFunction start_state)
   \<and> type_check_commands 1 [instruction (Tree ''print'' [number ''3'' 44])]
         (add_warning (Tree ''return'' [number ''1'' 26]) UnreachableCode
            (add_error (Tree ''return'' [number ''1'' 26]) ReturnOutsideFunction start_state))
       = Inr (add_warning (Tree ''return'' [number ''1'' 26]) UnreachableCode
                (add_error (Tree ''return'' [number ''1'' 26]) ReturnOutsideFunction start_state))
   \<and> check_function_body 1
         [instruction (Tree ''return'' [number ''1'' 26]),
          instruction (Tree ''print'' [number ''2'' 35]),
          instruction (Tree ''print'' [number ''3'' 44])] None False start_state
       = Inr (Some (Tree ''return'' [number ''1'' 26]),
              add_warning (Tree ''return'' [number ''1'' 26]) UnreachableCode
                (add_error (Tree ''return'' [number ''1'' 26]) ReturnOutsideFunction start_state))"
proof -
  let ?ret = "Tree ''return'' [number ''1'' 26]"
  let ?s2 = "add_error ?ret ReturnOutsideFunction start_state"
  let ?s4 = "add_warning ?ret UnreachableCode ?s2"
  have h1: "check_function_body 1 [] None False start_state = Inr (None, start_state)"
    by simp
  have h2: "type_check_command 1 (instruction ?ret) start_state = Inr (Some ?ret, ?s2)"
    by (simp add: sample_defs literal_defs checker_simps start_state_def global_scope_def
          new_scope_def add_error_def)
  have h3: "type_check_command 1 (instruction (Tree ''print'' [number ''2'' 35])) ?s2
              = Inr (None, ?s2)"
    by (simp add: sample_defs literal_defs checker_simps)
  have h4: "type_check_commands 1 [instruction (Tree ''print'' [number ''3'' 44])] ?s4 = Inr ?s4"
    by (simp add: sample_defs literal_defs checker_simps)
  from C4_unreachable_code [OF h1 h2 h3 h4]
  have "check_function_body 1
         ([] @ instruction ?ret # instruction (Tree ''print'' [number ''2'' 35])
            # [instruction (Tree ''print'' [number ''3'' 44])]) None False start_state
       = Inr (Some ?ret, ?s4)"
    by (rule conjunct1)
  with h1 h2 h3 h4 show ?thesis by simp
qed

end
